theory Spec2Isabelle
  imports Main
begin

unbundle bit_operations_syntax

section \<open>Python values used by movement.py\<close>

text \<open>
  The exceptions that the code of \<^verbatim>\<open>Controller\<close> can raise. \<open>ReadBlocks\<close> is not a
  Python exception: the port is opened without a timeout, so \<^verbatim>\<open>usb.read()\<close> on a
  silent device never returns, and the model makes that outcome a value.
\<close>

datatype error =
    IndexError
  | ValueError
  | TypeError
  | UnicodeEncodeError
  | PortNotOpenError
  | SerialException
  | ReadBlocks

text \<open>
  Python integers are unbounded: \<open>int\<close>. A \<^verbatim>\<open>str\<close> is the list of its code points.
  What \<^verbatim>\<open>usb.read()\<close> returns is a \<^verbatim>\<open>str\<close> under Python 2 and a \<^verbatim>\<open>bytes\<close> under
  Python 3; the two are different values to \<^verbatim>\<open>==\<close>.
\<close>

datatype pyval = Str "int list" | Bytes "int list"

text \<open>\<^verbatim>\<open>chr(i)\<close>: one character, or ValueError outside \<^verbatim>\<open>range(256)\<close> (Python 2)
  or \<^verbatim>\<open>range(0x110000)\<close> (Python 3). Beyond the range of a C integer Python raises
  OverflowError instead; the model gives ValueError for every refused argument, and no
  claim below names the exception of \<^verbatim>\<open>chr\<close>.\<close>

definition py_chr :: "bool \<Rightarrow> int \<Rightarrow> error + int" where
  "py_chr PY2 i =
     (if 0 \<le> i \<and> i < (if PY2 then 256 else 1114112) then Inr i else Inl ValueError)"

text \<open>\<^verbatim>\<open>ord(v)\<close>: defined on a string or a bytes object of length one.\<close>

fun py_ord :: "pyval \<Rightarrow> error + int" where
  "py_ord (Str [c]) = Inr c"
| "py_ord (Bytes [b]) = Inr b"
| "py_ord _ = Inl TypeError"

text \<open>\<^verbatim>\<open>a == b\<close>: a \<^verbatim>\<open>bytes\<close> never equals a \<^verbatim>\<open>str\<close>.\<close>

fun py_eq :: "pyval \<Rightarrow> pyval \<Rightarrow> bool" where
  "py_eq (Str a) (Str b) = (a = b)"
| "py_eq (Bytes a) (Bytes b) = (a = b)"
| "py_eq _ _ = False"

text \<open>\<^verbatim>\<open>bytes(s, 'latin-1')\<close>: each code point below 256 is one byte.\<close>

definition latin1 :: "int list \<Rightarrow> error + int list" where
  "latin1 s = (if list_all (\<lambda>c. 0 \<le> c \<and> c < 256) s then Inr s else Inl UnicodeEncodeError)"

text \<open>\<^verbatim>\<open>xs[i]\<close> and \<^verbatim>\<open>xs[i] = v\<close> on a list: a negative index counts from the end,
  an index out of range raises IndexError.\<close>

definition list_get :: "int list \<Rightarrow> int \<Rightarrow> error + int" where
  "list_get xs i =
     (let n = int (length xs); j = (if i < 0 then i + n else i)
      in if 0 \<le> j \<and> j < n then Inr (xs ! nat j) else Inl IndexError)"

definition list_set :: "int list \<Rightarrow> int \<Rightarrow> int \<Rightarrow> error + int list" where
  "list_set xs i v =
     (let n = int (length xs); j = (if i < 0 then i + n else i)
      in if 0 \<le> j \<and> j < n then Inr (xs[nat j := v]) else Inl IndexError)"

section \<open>The serial port\<close>

text \<open>
  \<^verbatim>\<open>serial.Serial\<close> is the pyserial library, outside the repository. The model keeps
  what the controller can observe of it: whether the port is open, whether the operating
  system reports a failure on the line (\<open>io_fault\<close>), the byte strings written so far (one
  entry for each call of \<^verbatim>\<open>write\<close>, oldest first) and the bytes the device will answer
  with. A closed port raises on \<^verbatim>\<open>write\<close> and \<^verbatim>\<open>read\<close>; \<^verbatim>\<open>read()\<close> takes one byte.
\<close>

record serial =
  is_open :: bool
  io_fault :: bool
  written :: "int list list"
  pending :: "int list"

definition usb_write :: "serial \<Rightarrow> int list \<Rightarrow> error + serial" where
  "usb_write port data =
     (if \<not> is_open port then Inl PortNotOpenError
      else if io_fault port then Inl SerialException
      else Inr (port\<lparr>written := written port @ [data]\<rparr>))"

definition usb_read :: "bool \<Rightarrow> serial \<Rightarrow> error + (pyval \<times> serial)" where
  "usb_read PY2 port =
     (if \<not> is_open port then Inl PortNotOpenError
      else if io_fault port then Inl SerialException
      else case pending port of
             [] \<Rightarrow> Inl ReadBlocks
           | b # bs \<Rightarrow> Inr (if PY2 then Str [b] else Bytes [b], port\<lparr>pending := bs\<rparr>))"

definition usb_close :: "serial \<Rightarrow> serial" where
  "usb_close port = port\<lparr>is_open := False\<rparr>"

section \<open>The controller\<close>

record controller =
  usb :: serial
  PololuCmd :: "int list"
  Targets :: "int list"
  Mins :: "int list"
  Maxs :: "int list"

text \<open>
  A method returns its result, or the exception it raised, together with the controller
  as the call left it: an exception keeps every assignment made before it.
\<close>

type_synonym 'a result = "(error + 'a) \<times> controller"

text \<open>
  \<^verbatim>\<open>__init__\<close>, lines 31-42. \<open>port\<close> is the outcome of \<^verbatim>\<open>serial.Serial(ttyStr)\<close>.
  \<open>PY2\<close> is the module constant of line 4.
\<close>

definition Controller_init :: "bool \<Rightarrow> error + serial \<Rightarrow> int \<Rightarrow> error + controller" where
  "Controller_init PY2 port device =
     (case port of
        Inl e \<Rightarrow> Inl e
      | Inr p \<Rightarrow>
          (case py_chr PY2 0xaa of
             Inl e \<Rightarrow> Inl e
           | Inr lead \<Rightarrow>
               (case py_chr PY2 device of
                  Inl e \<Rightarrow> Inl e
                | Inr d \<Rightarrow>
                    Inr \<lparr>usb = p, PololuCmd = [lead, d],
                         Targets = replicate 24 0,
                         Mins = replicate 24 0,
                         Maxs = replicate 24 0\<rparr>)))"

text \<open>\<^verbatim>\<open>close\<close>, lines 45-46.\<close>

definition close :: "controller \<Rightarrow> unit result" where
  "close self = (Inr (), self\<lparr>usb := usb_close (usb self)\<rparr>)"

text \<open>\<^verbatim>\<open>sendCmd\<close>, lines 49-54.\<close>

definition sendCmd :: "bool \<Rightarrow> controller \<Rightarrow> int list \<Rightarrow> unit result" where
  "sendCmd PY2 self cmd =
     (let cmdStr = PololuCmd self @ cmd in
      case (if PY2 then Inr cmdStr else latin1 cmdStr) of
        Inl e \<Rightarrow> (Inl e, self)
      | Inr data \<Rightarrow>
          (case usb_write (usb self) data of
             Inl e \<Rightarrow> (Inl e, self)
           | Inr port \<Rightarrow> (Inr (), self\<lparr>usb := port\<rparr>)))"

text \<open>\<^verbatim>\<open>setRange\<close>, \<^verbatim>\<open>getMin\<close>, \<^verbatim>\<open>getMax\<close>, lines 63-73.\<close>

definition setRange :: "controller \<Rightarrow> int \<Rightarrow> int \<Rightarrow> int \<Rightarrow> unit result" where
  "setRange self chan mn mx =
     (case list_set (Mins self) chan mn of
        Inl e \<Rightarrow> (Inl e, self)
      | Inr mins \<Rightarrow>
          (let self1 = self\<lparr>Mins := mins\<rparr> in
           case list_set (Maxs self1) chan mx of
             Inl e \<Rightarrow> (Inl e, self1)
           | Inr maxs \<Rightarrow> (Inr (), self1\<lparr>Maxs := maxs\<rparr>)))"

definition getMin :: "controller \<Rightarrow> int \<Rightarrow> int result" where
  "getMin self chan = (list_get (Mins self) chan, self)"

definition getMax :: "controller \<Rightarrow> int \<Rightarrow> int result" where
  "getMax self chan = (list_get (Maxs self) chan, self)"

text \<open>
  The two data bytes of a value, as lines 90-91, 103-104 and 113-114 compute them
  (\<^verbatim>\<open>v & 0x7f\<close> and \<^verbatim>\<open>(v >> 7) & 0x7f\<close>), and the value of a two-byte response, as
  line 130 computes it (\<^verbatim>\<open>(msb << 8) + lsb\<close>).
\<close>

definition lsb_of :: "int \<Rightarrow> int" where
  "lsb_of v = v AND 0x7f"

definition msb_of :: "int \<Rightarrow> int" where
  "msb_of v = drop_bit 7 v AND 0x7f"

definition combine :: "int \<Rightarrow> int \<Rightarrow> int" where
  "combine lsb msb = push_bit 8 msb + lsb"

text \<open>
  A command of an opcode, a channel and a two-byte value:
  \<^verbatim>\<open>cmd = chr(op) + chr(chan) + chr(lsb) + chr(msb)\<close>, the characters made from left
  to right.
\<close>

definition cmd4 :: "bool \<Rightarrow> int \<Rightarrow> int \<Rightarrow> int \<Rightarrow> int \<Rightarrow> error + int list" where
  "cmd4 PY2 opcode chan lsb msb =
     (case py_chr PY2 opcode of
        Inl e \<Rightarrow> Inl e
      | Inr c0 \<Rightarrow>
          (case py_chr PY2 chan of
             Inl e \<Rightarrow> Inl e
           | Inr c1 \<Rightarrow>
               (case py_chr PY2 lsb of
                  Inl e \<Rightarrow> Inl e
                | Inr c2 \<Rightarrow>
                    (case py_chr PY2 msb of
                       Inl e \<Rightarrow> Inl e
                     | Inr c3 \<Rightarrow> Inr [c0, c1, c2, c3]))))"

text \<open>
  \<^verbatim>\<open>setTarget\<close>, lines 82-95. The condition of line 84 reads \<^verbatim>\<open>self.Mins[chan]\<close>
  up to three times with the same outcome; the model reads it once. Likewise line 87.
\<close>

definition setTarget :: "bool \<Rightarrow> controller \<Rightarrow> int \<Rightarrow> int \<Rightarrow> unit result" where
  "setTarget PY2 self chan target =
     (case list_get (Mins self) chan of
        Inl e \<Rightarrow> (Inl e, self)
      | Inr mn \<Rightarrow>
          (let target1 = (if mn > 0 \<and> target < mn then mn else target) in
           case list_get (Maxs self) chan of
             Inl e \<Rightarrow> (Inl e, self)
           | Inr mx \<Rightarrow>
               (let target2 = (if mx > 0 \<and> target1 > mx then mx else target1);
                    lsb = lsb_of target2;
                    msb = msb_of target2
                in case cmd4 PY2 0x04 chan lsb msb of
                     Inl e \<Rightarrow> (Inl e, self)
                   | Inr cmd \<Rightarrow>
                       (case sendCmd PY2 self cmd of
                          (Inl e, self1) \<Rightarrow> (Inl e, self1)
                        | (Inr _, self1) \<Rightarrow>
                            (case list_set (Targets self1) chan target2 of
                               Inl e \<Rightarrow> (Inl e, self1)
                             | Inr ts \<Rightarrow> (Inr (), self1\<lparr>Targets := ts\<rparr>))))))"

text \<open>\<^verbatim>\<open>setSpeed\<close>, lines 102-106, and \<^verbatim>\<open>setAccel\<close>, lines 112-116.\<close>

definition setSpeed :: "bool \<Rightarrow> controller \<Rightarrow> int \<Rightarrow> int \<Rightarrow> unit result" where
  "setSpeed PY2 self chan speed =
     (let lsb = lsb_of speed; msb = msb_of speed
      in case cmd4 PY2 0x07 chan lsb msb of
           Inl e \<Rightarrow> (Inl e, self)
         | Inr cmd \<Rightarrow> sendCmd PY2 self cmd)"

definition setAccel :: "bool \<Rightarrow> controller \<Rightarrow> int \<Rightarrow> int \<Rightarrow> unit result" where
  "setAccel PY2 self chan accel =
     (let lsb = lsb_of accel; msb = msb_of accel
      in case cmd4 PY2 0x09 chan lsb msb of
           Inl e \<Rightarrow> (Inl e, self)
         | Inr cmd \<Rightarrow> sendCmd PY2 self cmd)"

text \<open>One \<^verbatim>\<open>ord(self.usb.read())\<close>, as on lines 128 and 129.\<close>

definition read_ord :: "bool \<Rightarrow> controller \<Rightarrow> int result" where
  "read_ord PY2 self =
     (case usb_read PY2 (usb self) of
        Inl e \<Rightarrow> (Inl e, self)
      | Inr (v, port) \<Rightarrow> (py_ord v, self\<lparr>usb := port\<rparr>))"

text \<open>\<^verbatim>\<open>getPosition\<close>, lines 125-130.\<close>

definition getPosition :: "bool \<Rightarrow> controller \<Rightarrow> int \<Rightarrow> int result" where
  "getPosition PY2 self chan =
     (case py_chr PY2 0x10 of
        Inl e \<Rightarrow> (Inl e, self)
      | Inr c0 \<Rightarrow>
          (case py_chr PY2 chan of
             Inl e \<Rightarrow> (Inl e, self)
           | Inr c1 \<Rightarrow>
               (case sendCmd PY2 self [c0, c1] of
                  (Inl e, self1) \<Rightarrow> (Inl e, self1)
                | (Inr _, self1) \<Rightarrow>
                    (case read_ord PY2 self1 of
                       (Inl e, self2) \<Rightarrow> (Inl e, self2)
                     | (Inr lsb, self2) \<Rightarrow>
                         (case read_ord PY2 self2 of
                            (Inl e, self3) \<Rightarrow> (Inl e, self3)
                          | (Inr msb, self3) \<Rightarrow> (Inr (combine lsb msb), self3))))))"

text \<open>\<^verbatim>\<open>isMoving\<close>, lines 139-143.\<close>

definition isMoving :: "bool \<Rightarrow> controller \<Rightarrow> int \<Rightarrow> bool result" where
  "isMoving PY2 self chan =
     (case list_get (Targets self) chan of
        Inl e \<Rightarrow> (Inl e, self)
      | Inr t \<Rightarrow>
          (if t > 0 then
             (case getPosition PY2 self chan of
                (Inl e, self1) \<Rightarrow> (Inl e, self1)
              | (Inr p, self1) \<Rightarrow>
                  (case list_get (Targets self1) chan of
                     Inl e \<Rightarrow> (Inl e, self1)
                   | Inr t1 \<Rightarrow> if p \<noteq> t1 then (Inr True, self1) else (Inr False, self1)))
           else (Inr False, self)))"

text \<open>\<^verbatim>\<open>getMovingState\<close>, lines 148-154.\<close>

definition getMovingState :: "bool \<Rightarrow> controller \<Rightarrow> bool result" where
  "getMovingState PY2 self =
     (case py_chr PY2 0x13 of
        Inl e \<Rightarrow> (Inl e, self)
      | Inr c0 \<Rightarrow>
          (case sendCmd PY2 self [c0] of
             (Inl e, self1) \<Rightarrow> (Inl e, self1)
           | (Inr _, self1) \<Rightarrow>
               (case usb_read PY2 (usb self1) of
                  Inl e \<Rightarrow> (Inl e, self1)
                | Inr (v, port) \<Rightarrow>
                    (case py_chr PY2 0 of
                       Inl e \<Rightarrow> (Inl e, self1\<lparr>usb := port\<rparr>)
                     | Inr z \<Rightarrow>
                         if py_eq v (Str [z]) then (Inr False, self1\<lparr>usb := port\<rparr>)
                         else (Inr True, self1\<lparr>usb := port\<rparr>)))))"

text \<open>\<^verbatim>\<open>runScriptSub\<close>, lines 159-163, and \<^verbatim>\<open>stopScript\<close>, lines 166-168.\<close>

definition runScriptSub :: "bool \<Rightarrow> controller \<Rightarrow> int \<Rightarrow> unit result" where
  "runScriptSub PY2 self subNumber =
     (case py_chr PY2 0x27 of
        Inl e \<Rightarrow> (Inl e, self)
      | Inr c0 \<Rightarrow>
          (case py_chr PY2 subNumber of
             Inl e \<Rightarrow> (Inl e, self)
           | Inr c1 \<Rightarrow> sendCmd PY2 self [c0, c1]))"

definition stopScript :: "bool \<Rightarrow> controller \<Rightarrow> unit result" where
  "stopScript PY2 self =
     (case py_chr PY2 0x24 of
        Inl e \<Rightarrow> (Inl e, self)
      | Inr c0 \<Rightarrow> sendCmd PY2 self [c0])"

text \<open>
  Two statements in sequence: the second runs on the controller as the first left it and
  may use the first's value; when the first raises, the exception leaves the method with
  the controller as it is then.
\<close>

definition andThen :: "'a result \<Rightarrow> ('a \<Rightarrow> controller \<Rightarrow> 'b result) \<Rightarrow> 'b result" where
  "andThen r k = (case r of (Inl e, self1) \<Rightarrow> (Inl e, self1) | (Inr x, self1) \<Rightarrow> k x self1)"

text \<open>
  The gestures, lines 170-249. In the four head gestures the condition calls
  \<^verbatim>\<open>getPosition\<close> once and the argument of \<^verbatim>\<open>setTarget\<close> calls it a second time.
\<close>

definition rotateHeadRight :: "bool \<Rightarrow> controller \<Rightarrow> unit result" where
  "rotateHeadRight PY2 self =
     andThen (setRange self 3 4000 8000) (\<lambda>_ self1.
     andThen (setSpeed PY2 self1 3 1000) (\<lambda>_ self2.
     andThen (getPosition PY2 self2 3) (\<lambda>p self3.
       if p < 8000 then
         andThen (getPosition PY2 self3 3) (\<lambda>q self4. setTarget PY2 self4 3 (q + 1000))
       else (Inr (), self3))))"

definition rotateHeadLeft :: "bool \<Rightarrow> controller \<Rightarrow> unit result" where
  "rotateHeadLeft PY2 self =
     andThen (setRange self 3 4000 8000) (\<lambda>_ self1.
     andThen (setSpeed PY2 self1 3 1000) (\<lambda>_ self2.
     andThen (getPosition PY2 self2 3) (\<lambda>p self3.
       if p > 4000 then
         andThen (getPosition PY2 self3 3) (\<lambda>q self4. setTarget PY2 self4 3 (q - 1000))
       else (Inr (), self3))))"

definition tiltHeadUp :: "bool \<Rightarrow> controller \<Rightarrow> unit result" where
  "tiltHeadUp PY2 self =
     andThen (setRange self 4 4000 8000) (\<lambda>_ self1.
     andThen (setSpeed PY2 self1 4 1000) (\<lambda>_ self2.
     andThen (getPosition PY2 self2 4) (\<lambda>p self3.
       if p < 8000 then
         andThen (getPosition PY2 self3 4) (\<lambda>q self4. setTarget PY2 self4 4 (q + 1000))
       else (Inr (), self3))))"

definition tiltHeadDown :: "bool \<Rightarrow> controller \<Rightarrow> unit result" where
  "tiltHeadDown PY2 self =
     andThen (setRange self 4 4000 8000) (\<lambda>_ self1.
     andThen (setSpeed PY2 self1 4 1000) (\<lambda>_ self2.
     andThen (getPosition PY2 self2 4) (\<lambda>p self3.
       if p > 4000 then
         andThen (getPosition PY2 self3 4) (\<lambda>q self4. setTarget PY2 self4 4 (q - 1000))
       else (Inr (), self3))))"

definition turnRight :: "bool \<Rightarrow> controller \<Rightarrow> unit result" where
  "turnRight PY2 self =
     andThen (setRange self 2 5000 7000) (\<lambda>_ self1.
     andThen (setSpeed PY2 self1 2 1000) (\<lambda>_ self2. setTarget PY2 self2 2 7000))"

definition turnLeft :: "bool \<Rightarrow> controller \<Rightarrow> unit result" where
  "turnLeft PY2 self =
     andThen (setRange self 2 5000 7000) (\<lambda>_ self1.
     andThen (setSpeed PY2 self1 2 1000) (\<lambda>_ self2. setTarget PY2 self2 2 5000))"

definition moveForward :: "bool \<Rightarrow> controller \<Rightarrow> unit result" where
  "moveForward PY2 self =
     andThen (setRange self 1 5000 7000) (\<lambda>_ self1.
     andThen (setSpeed PY2 self1 1 1000) (\<lambda>_ self2. setTarget PY2 self2 1 6700))"

definition moveForwarder :: "bool \<Rightarrow> controller \<Rightarrow> unit result" where
  "moveForwarder PY2 self =
     andThen (setRange self 1 5000 7000) (\<lambda>_ self1.
     andThen (setSpeed PY2 self1 1 1000) (\<lambda>_ self2. setTarget PY2 self2 1 6800))"

definition moveForwardest :: "bool \<Rightarrow> controller \<Rightarrow> unit result" where
  "moveForwardest PY2 self =
     andThen (setRange self 1 5000 7000) (\<lambda>_ self1.
     andThen (setSpeed PY2 self1 1 1000) (\<lambda>_ self2. setTarget PY2 self2 1 6900))"

definition moveBackward :: "bool \<Rightarrow> controller \<Rightarrow> unit result" where
  "moveBackward PY2 self =
     andThen (setRange self 1 5000 7000) (\<lambda>_ self1.
     andThen (setSpeed PY2 self1 1 1000) (\<lambda>_ self2. setTarget PY2 self2 1 5400))"

definition moveBackwarder :: "bool \<Rightarrow> controller \<Rightarrow> unit result" where
  "moveBackwarder PY2 self =
     andThen (setRange self 1 5000 7000) (\<lambda>_ self1.
     andThen (setSpeed PY2 self1 1 1000) (\<lambda>_ self2. setTarget PY2 self2 1 5300))"

definition moveBackwardest :: "bool \<Rightarrow> controller \<Rightarrow> unit result" where
  "moveBackwardest PY2 self =
     andThen (setRange self 1 5000 7000) (\<lambda>_ self1.
     andThen (setSpeed PY2 self1 1 1000) (\<lambda>_ self2. setTarget PY2 self2 1 5200))"

definition stopMotion :: "bool \<Rightarrow> controller \<Rightarrow> unit result" where
  "stopMotion PY2 self =
     andThen (setRange self 1 5000 7000) (\<lambda>_ self1.
     andThen (setSpeed PY2 self1 1 1000) (\<lambda>_ self2. setTarget PY2 self2 1 6000))"

definition resetAll :: "bool \<Rightarrow> controller \<Rightarrow> unit result" where
  "resetAll PY2 self =
     andThen (setSpeed PY2 self 3 1000) (\<lambda>_ self1.
     andThen (setTarget PY2 self1 3 6000) (\<lambda>_ self2.
     andThen (setSpeed PY2 self2 4 1000) (\<lambda>_ self3.
     andThen (setTarget PY2 self3 4 6000) (\<lambda>_ self4.
     andThen (setSpeed PY2 self4 0 1000) (\<lambda>_ self5.
     andThen (setTarget PY2 self5 0 6000) (\<lambda>_ self6.
     andThen (setSpeed PY2 self6 2 1000) (\<lambda>_ self7.
     andThen (setTarget PY2 self7 2 6000) (\<lambda>_ self8.
     andThen (setSpeed PY2 self8 1 1000) (\<lambda>_ self9. setTarget PY2 self9 1 6000)))))))))"

section \<open>States that the theorems speak about\<close>

text \<open>
  The three tables keep the length 24 that \<^verbatim>\<open>__init__\<close> gives them (no method
  changes a length), and the link is up when the port is open and the operating system
  reports no failure. \<open>fresh_port answers\<close> is a port just opened on a device that will
  answer with the bytes \<open>answers\<close>; \<open>new_controller answers\<close> is what
  \<^verbatim>\<open>Controller()\<close> builds on it with the default device number.
\<close>

definition tables_ok :: "controller \<Rightarrow> bool" where
  "tables_ok self =
     (length (Targets self) = 24 \<and> length (Mins self) = 24 \<and> length (Maxs self) = 24)"

definition link_up :: "controller \<Rightarrow> bool" where
  "link_up self = (is_open (usb self) \<and> \<not> io_fault (usb self))"

definition fresh_port :: "int list \<Rightarrow> serial" where
  "fresh_port answers = \<lparr>is_open = True, io_fault = False, written = [], pending = answers\<rparr>"

definition new_controller :: "int list \<Rightarrow> controller" where
  "new_controller answers =
     \<lparr>usb = fresh_port answers, PololuCmd = [0xaa, 0x0c],
      Targets = replicate 24 0, Mins = replicate 24 0, Maxs = replicate 24 0\<rparr>"

text \<open>
  Lines 90-95 of \<^verbatim>\<open>setTarget\<close> as a function of the clamped value \<open>v\<close>: what
  \<^verbatim>\<open>setTarget\<close> does once lines 84-88 have fixed the value. It is used in proofs only.
\<close>

definition send_and_record :: "bool \<Rightarrow> controller \<Rightarrow> int \<Rightarrow> int \<Rightarrow> unit result" where
  "send_and_record PY2 self chan v =
     (case cmd4 PY2 0x04 chan (lsb_of v) (msb_of v) of
        Inl e \<Rightarrow> (Inl e, self)
      | Inr cmd \<Rightarrow>
          (case sendCmd PY2 self cmd of
             (Inl e, self1) \<Rightarrow> (Inl e, self1)
           | (Inr _, self1) \<Rightarrow>
               (case list_set (Targets self1) chan v of
                  Inl e \<Rightarrow> (Inl e, self1)
                | Inr ts \<Rightarrow> (Inr (), self1\<lparr>Targets := ts\<rparr>))))"

section \<open>Arithmetic of the data bytes\<close>

lemma lsb_of_mod: "lsb_of v = v mod 128"
proof -
  have "v AND mask 7 = v mod 2 ^ 7"
    by (simp only: take_bit_eq_mask [symmetric] take_bit_eq_mod)
  then show ?thesis by (simp add: lsb_of_def mask_eq_exp_minus_1)
qed

lemma msb_of_div: "msb_of v = (v div 128) mod 128"
proof -
  have "drop_bit 7 v AND mask 7 = drop_bit 7 v mod 2 ^ 7"
    by (simp only: take_bit_eq_mask [symmetric] take_bit_eq_mod)
  then show ?thesis by (simp add: msb_of_def mask_eq_exp_minus_1 drop_bit_eq_div)
qed

lemma combine_eq: "combine l m = m * 256 + l"
  by (simp add: combine_def push_bit_eq_mult)

lemma lsb_of_range: "0 \<le> lsb_of v \<and> lsb_of v < 128"
  by (simp add: lsb_of_mod)

lemma msb_of_range: "0 \<le> msb_of v \<and> msb_of v < 128"
  by (simp add: msb_of_div)

lemma data_byte [simp]:
  "0 \<le> lsb_of v" "lsb_of v < 256" "0 \<le> msb_of v" "msb_of v < 256"
  by (simp_all add: lsb_of_mod msb_of_div)

lemma py_chr_byte: "0 \<le> i \<Longrightarrow> i < 256 \<Longrightarrow> py_chr PY2 i = Inr i"
  by (simp add: py_chr_def)

lemma cmd4_bytes:
  assumes "0 \<le> opcode" "opcode < 256" "0 \<le> chan" "chan < 256"
  shows "cmd4 PY2 opcode chan (lsb_of v) (msb_of v) = Inr [opcode, chan, lsb_of v, msb_of v]"
proof -
  have l: "py_chr PY2 (lsb_of v) = Inr (lsb_of v)"
    using lsb_of_range [of v] by (intro py_chr_byte) auto
  have m: "py_chr PY2 (msb_of v) = Inr (msb_of v)"
    using msb_of_range [of v] by (intro py_chr_byte) auto
  show ?thesis using assms by (simp add: cmd4_def py_chr_byte l m)
qed

lemma sendCmd_up:
  assumes "link_up self" "list_all (\<lambda>c. 0 \<le> c \<and> c < 256) (PololuCmd self @ cmd)"
  shows "sendCmd PY2 self cmd =
    (Inr (), self\<lparr>usb := (usb self)\<lparr>written := written (usb self) @ [PololuCmd self @ cmd]\<rparr>\<rparr>)"
  using assms by (simp add: sendCmd_def latin1_def usb_write_def link_up_def Let_def)

lemma list_get_in: "0 \<le> i \<Longrightarrow> i < int (length xs) \<Longrightarrow> list_get xs i = Inr (xs ! nat i)"
  by (simp add: list_get_def Let_def)

lemma list_set_in: "0 \<le> i \<Longrightarrow> i < int (length xs) \<Longrightarrow> list_set xs i v = Inr (xs[nat i := v])"
  by (simp add: list_set_def Let_def)

lemma setTarget_sends:
  assumes t: "tables_ok self" and l: "link_up self"
    and h: "PololuCmd self = [0xaa, device]" and d: "0 \<le> device" "device < 256"
    and c: "0 \<le> chan" "chan < 24"
  shows "setTarget PY2 self chan target =
    (let mn = Mins self ! nat chan; mx = Maxs self ! nat chan;
         t1 = (if mn > 0 \<and> target < mn then mn else target);
         t2 = (if mx > 0 \<and> t1 > mx then mx else t1)
     in (Inr (), self\<lparr>usb := (usb self)\<lparr>written := written (usb self) @
                            [[0xaa, device, 0x04, chan, lsb_of t2, msb_of t2]]\<rparr>,
                      Targets := (Targets self)[nat chan := t2]\<rparr>))"
proof -
  have g1: "list_get (Mins self) chan = Inr (Mins self ! nat chan)"
    using t c by (simp add: list_get_in tables_ok_def)
  have g2: "list_get (Maxs self) chan = Inr (Maxs self ! nat chan)"
    using t c by (simp add: list_get_in tables_ok_def)
  have cm: "\<And>v. cmd4 PY2 0x04 chan (lsb_of v) (msb_of v) = Inr [0x04, chan, lsb_of v, msb_of v]"
    using c by (intro cmd4_bytes) auto
  have sn: "\<And>v. sendCmd PY2 self [0x04, chan, lsb_of v, msb_of v] =
    (Inr (), self\<lparr>usb := (usb self)\<lparr>written := written (usb self) @
        [[0xaa, device, 0x04, chan, lsb_of v, msb_of v]]\<rparr>\<rparr>)"
    using l h d c by (subst sendCmd_up) auto
  have st: "\<And>v. list_set (Targets self) chan v = Inr ((Targets self)[nat chan := v])"
    using t c by (simp add: list_set_in tables_ok_def)
  show ?thesis
    by (simp add: setTarget_def g1 g2 cm sn st Let_def)
qed

lemma setRange_in:
  assumes "tables_ok self" "0 \<le> chan" "chan < 24"
  shows "setRange self chan mn mx =
    (Inr (), self\<lparr>Mins := (Mins self)[nat chan := mn], Maxs := (Maxs self)[nat chan := mx]\<rparr>)"
  using assms by (simp add: setRange_def tables_ok_def list_set_in Let_def)

lemma new_controller_ok [simp]:
  "tables_ok (new_controller answers)" "link_up (new_controller answers)"
  "PololuCmd (new_controller answers) = [0xaa, 0x0c]"
  by (simp_all add: new_controller_def tables_ok_def link_up_def fresh_port_def)

lemma Controller_init_default:
  "Controller_init PY2 (Inr (fresh_port answers)) 0x0c = Inr (new_controller answers)"
  by (simp add: Controller_init_def py_chr_def new_controller_def)

lemma setRange_new:
  "0 \<le> chan \<Longrightarrow> chan < 24 \<Longrightarrow> setRange (new_controller answers) chan mn mx =
    (Inr (), (new_controller answers)\<lparr>Mins := (replicate 24 0)[nat chan := mn],
                                       Maxs := (replicate 24 0)[nat chan := mx]\<rparr>)"
  by (simp add: setRange_in) (simp add: new_controller_def)

section \<open>What a method leaves unchanged\<close>

lemma sendCmd_frame: "\<exists>port. snd (sendCmd PY2 self cmd) = self\<lparr>usb := port\<rparr>"
proof (cases "fst (sendCmd PY2 self cmd)")
  case (Inl e)
  then have "snd (sendCmd PY2 self cmd) = self"
    by (auto simp add: sendCmd_def Let_def split: sum.splits if_splits)
  then have "snd (sendCmd PY2 self cmd) = self\<lparr>usb := usb self\<rparr>" by simp
  then show ?thesis by blast
next
  case (Inr u)
  then show ?thesis
    by (auto simp add: sendCmd_def Let_def split: sum.splits if_splits)
qed

lemma sendCmd_keeps [simp]:
  "Targets (snd (sendCmd PY2 self cmd)) = Targets self"
  "Mins (snd (sendCmd PY2 self cmd)) = Mins self"
  "Maxs (snd (sendCmd PY2 self cmd)) = Maxs self"
  "PololuCmd (snd (sendCmd PY2 self cmd)) = PololuCmd self"
  using sendCmd_frame [of PY2 self cmd] by auto

lemma read_ord_keeps [simp]:
  "Targets (snd (read_ord PY2 self)) = Targets self"
  "Mins (snd (read_ord PY2 self)) = Mins self"
  "Maxs (snd (read_ord PY2 self)) = Maxs self"
  "PololuCmd (snd (read_ord PY2 self)) = PololuCmd self"
  by (auto simp add: read_ord_def split: sum.splits prod.splits)

lemma getPosition_keeps_Targets: "Targets (snd (getPosition PY2 self chan)) = Targets self"
proof -
  have a: "\<And>s cmd r s'. sendCmd PY2 s cmd = (r, s') \<Longrightarrow> Targets s' = Targets s"
    using sendCmd_keeps(1) by (metis snd_conv)
  have b: "\<And>s r s'. read_ord PY2 s = (r, s') \<Longrightarrow> Targets s' = Targets s"
    using read_ord_keeps(1) by (metis snd_conv)
  show ?thesis
    by (auto simp add: getPosition_def split: sum.splits prod.splits dest!: a b)
qed

lemma cmd4_Inr: "cmd4 PY2 opcode chan l m = Inr cmd \<Longrightarrow> 0 \<le> chan"
  by (simp add: cmd4_def py_chr_def split: sum.splits if_splits)

lemma list_set_Inr:
  "list_set xs i v = Inr ys \<Longrightarrow> 0 \<le> i \<Longrightarrow> ys = xs[nat i := v]"
  by (simp add: list_set_def Let_def split: if_splits)

lemma setTarget_shape:
  "(\<exists>e. setTarget PY2 self chan target = (Inl e, self))
   \<or> (\<exists>v. setTarget PY2 self chan target = send_and_record PY2 self chan v)"
proof (cases "list_get (Mins self) chan")
  case (Inl e)
  then show ?thesis by (simp add: setTarget_def)
next
  case mn: (Inr mn)
  show ?thesis
  proof (cases "list_get (Maxs self) chan")
    case (Inl e)
    then show ?thesis by (simp add: setTarget_def mn Let_def)
  next
    case mx: (Inr mx)
    have "setTarget PY2 self chan target = send_and_record PY2 self chan
        (let t1 = (if mn > 0 \<and> target < mn then mn else target)
         in if mx > 0 \<and> t1 > mx then mx else t1)"
      unfolding setTarget_def send_and_record_def mn mx Let_def by simp
    then show ?thesis by blast
  qed
qed

lemma send_and_record_outcome:
  "(\<exists>e. fst (send_and_record PY2 self chan v) = Inl e
        \<and> Targets (snd (send_and_record PY2 self chan v)) = Targets self)
   \<or> (fst (send_and_record PY2 self chan v) = Inr () \<and> 0 \<le> chan
        \<and> Targets (snd (send_and_record PY2 self chan v)) = (Targets self)[nat chan := v])"
proof (cases "cmd4 PY2 0x04 chan (lsb_of v) (msb_of v)")
  case (Inl e)
  then show ?thesis by (simp add: send_and_record_def)
next
  case c: (Inr cmd)
  then have ch: "0 \<le> chan" by (rule cmd4_Inr)
  obtain r self1 where s: "sendCmd PY2 self cmd = (r, self1)" by (cases "sendCmd PY2 self cmd")
  then have t: "Targets self1 = Targets self" using sendCmd_keeps(1) [of PY2 self cmd] by simp
  show ?thesis
  proof (cases r)
    case (Inl e)
    then show ?thesis by (simp add: send_and_record_def c s t)
  next
    case r: (Inr u)
    show ?thesis
    proof (cases "list_set (Targets self1) chan v")
      case (Inl e)
      then show ?thesis by (simp add: send_and_record_def c s r t)
    next
      case (Inr ts)
      then have "ts = (Targets self)[nat chan := v]" using list_set_Inr ch t by metis
      then show ?thesis using ch by (simp add: send_and_record_def c s r Inr)
    qed
  qed
qed

lemma setTarget_failure_keeps:
  assumes "fst (setTarget PY2 self chan target) = Inl e"
  shows "Targets (snd (setTarget PY2 self chan target)) = Targets self"
  using setTarget_shape [of PY2 self chan target] send_and_record_outcome [of PY2 self chan] assms
  by (metis Inl_Inr_False snd_conv)

lemma setTarget_success_entry:
  assumes "fst (setTarget PY2 self chan target) = Inr u"
  shows "0 \<le> chan \<and> (\<exists>v. Targets (snd (setTarget PY2 self chan target)) = (Targets self)[nat chan := v])"
  using setTarget_shape [of PY2 self chan target] send_and_record_outcome [of PY2 self chan] assms
  by (metis Inl_Inr_False fst_conv)

lemma setSpeed_keeps_Targets: "Targets (snd (setSpeed PY2 self chan speed)) = Targets self"
  by (simp add: setSpeed_def Let_def split: sum.split)

lemma setAccel_keeps_Targets: "Targets (snd (setAccel PY2 self chan accel)) = Targets self"
  by (simp add: setAccel_def Let_def split: sum.split)

lemma runScriptSub_keeps_Targets: "Targets (snd (runScriptSub PY2 self n)) = Targets self"
  by (simp add: runScriptSub_def split: sum.split)

lemma stopScript_keeps_Targets: "Targets (snd (stopScript PY2 self)) = Targets self"
  by (simp add: stopScript_def split: sum.split)

lemma setRange_keeps_Targets: "Targets (snd (setRange self chan mn mx)) = Targets self"
  by (simp add: setRange_def Let_def split: sum.split)

lemma getMovingState_keeps_Targets: "Targets (snd (getMovingState PY2 self)) = Targets self"
proof -
  have a: "\<And>s cmd r s'. sendCmd PY2 s cmd = (r, s') \<Longrightarrow> Targets s' = Targets s"
    using sendCmd_keeps(1) by (metis snd_conv)
  show ?thesis
    by (auto simp add: getMovingState_def split: sum.splits prod.splits dest!: a)
qed

lemma isMoving_keeps_Targets: "Targets (snd (isMoving PY2 self chan)) = Targets self"
proof -
  have a: "\<And>r s'. getPosition PY2 self chan = (r, s') \<Longrightarrow> Targets s' = Targets self"
    using getPosition_keeps_Targets [of PY2 self chan] by simp
  show ?thesis
    by (auto simp add: isMoving_def split: sum.splits prod.splits dest!: a)
qed

section \<open>A position query on a working link\<close>

lemma read_ord_up:
  assumes "link_up self" "pending (usb self) = b # rest"
  shows "read_ord PY2 self = (Inr b, self\<lparr>usb := (usb self)\<lparr>pending := rest\<rparr>\<rparr>)"
  using assms by (simp add: read_ord_def usb_read_def link_up_def)

lemma getPosition_reads:
  assumes l: "link_up self" and h: "list_all (\<lambda>c. 0 \<le> c \<and> c < 256) (PololuCmd self)"
    and c: "0 \<le> chan" "chan < 256" and p: "pending (usb self) = lsb # msb # rest"
  shows "getPosition PY2 self chan =
    (Inr (combine lsb msb),
     self\<lparr>usb := (usb self)\<lparr>written := written (usb self) @ [PololuCmd self @ [0x10, chan]],
                             pending := rest\<rparr>\<rparr>)"
proof -
  let ?w = "written (usb self) @ [PololuCmd self @ [0x10, chan]]"
  let ?s1 = "self\<lparr>usb := (usb self)\<lparr>written := ?w\<rparr>\<rparr>"
  let ?s2 = "self\<lparr>usb := (usb self)\<lparr>written := ?w, pending := msb # rest\<rparr>\<rparr>"
  let ?s3 = "self\<lparr>usb := (usb self)\<lparr>written := ?w, pending := rest\<rparr>\<rparr>"
  have s: "sendCmd PY2 self [0x10, chan] = (Inr (), ?s1)"
    using l h c by (intro sendCmd_up) auto
  have r1: "read_ord PY2 ?s1 = (Inr lsb, ?s2)"
    using l p by (simp add: read_ord_def usb_read_def link_up_def)
  have r2: "read_ord PY2 ?s2 = (Inr msb, ?s3)"
    using l by (simp add: read_ord_def usb_read_def link_up_def)
  show ?thesis using c
    by (simp add: getPosition_def py_chr_byte s r1 r2)
qed

section \<open>Methods on a link that is down\<close>

lemma sendCmd_down:
  assumes "\<not> link_up self"
  shows "\<exists>e. sendCmd PY2 self cmd = (Inl e, self)"
  using assms by (auto simp add: sendCmd_def usb_write_def link_up_def Let_def split: sum.split)

lemma sendCmd_closed_bytes:
  assumes "\<not> is_open (usb self)" "list_all (\<lambda>c. 0 \<le> c \<and> c < 256) (PololuCmd self @ cmd)"
  shows "sendCmd PY2 self cmd = (Inl PortNotOpenError, self)"
  using assms by (simp add: sendCmd_def usb_write_def latin1_def Let_def)

lemma send_and_record_down:
  assumes "\<not> link_up self"
  shows "\<exists>e. send_and_record PY2 self chan v = (Inl e, self)"
proof (cases "cmd4 PY2 0x04 chan (lsb_of v) (msb_of v)")
  case (Inl e)
  then show ?thesis by (simp add: send_and_record_def)
next
  case (Inr cmd)
  then show ?thesis using sendCmd_down [OF assms, of PY2 cmd]
    by (auto simp add: send_and_record_def)
qed

lemma setTarget_down:
  assumes "\<not> link_up self"
  shows "\<exists>e. setTarget PY2 self chan target = (Inl e, self)"
  using setTarget_shape [of PY2 self chan target] send_and_record_down [OF assms, of PY2 chan]
  by metis

lemma setSpeed_down:
  assumes "\<not> link_up self"
  shows "\<exists>e. setSpeed PY2 self chan speed = (Inl e, self)"
proof (cases "cmd4 PY2 0x07 chan (lsb_of speed) (msb_of speed)")
  case (Inl e)
  then show ?thesis by (simp add: setSpeed_def)
next
  case (Inr cmd)
  then show ?thesis using sendCmd_down [OF assms, of PY2 cmd]
    by (simp add: setSpeed_def)
qed

lemma setAccel_down:
  assumes "\<not> link_up self"
  shows "\<exists>e. setAccel PY2 self chan accel = (Inl e, self)"
proof (cases "cmd4 PY2 0x09 chan (lsb_of accel) (msb_of accel)")
  case (Inl e)
  then show ?thesis by (simp add: setAccel_def)
next
  case (Inr cmd)
  then show ?thesis using sendCmd_down [OF assms, of PY2 cmd]
    by (simp add: setAccel_def)
qed

lemma py_chr_cases: "py_chr PY2 i = Inl ValueError \<or> py_chr PY2 i = Inr i"
  by (simp add: py_chr_def)

lemma getPosition_down:
  assumes "\<not> link_up self"
  shows "\<exists>e. getPosition PY2 self chan = (Inl e, self)"
proof -
  have c0: "py_chr PY2 0x10 = Inr 0x10" by (simp add: py_chr_def)
  from py_chr_cases [of PY2 chan] show ?thesis
  proof
    assume "py_chr PY2 chan = Inl ValueError"
    then show ?thesis by (simp add: getPosition_def c0)
  next
    assume "py_chr PY2 chan = Inr chan"
    then show ?thesis using sendCmd_down [OF assms, of PY2 "[0x10, chan]"]
      by (auto simp add: getPosition_def c0)
  qed
qed

lemma getMovingState_down:
  assumes "\<not> link_up self"
  shows "\<exists>e. getMovingState PY2 self = (Inl e, self)"
proof -
  have c0: "py_chr PY2 0x13 = Inr 0x13" by (simp add: py_chr_def)
  show ?thesis using sendCmd_down [OF assms, of PY2 "[0x13]"]
    by (auto simp add: getMovingState_def c0)
qed

lemma runScriptSub_down:
  assumes "\<not> link_up self"
  shows "\<exists>e. runScriptSub PY2 self n = (Inl e, self)"
proof -
  have c0: "py_chr PY2 0x27 = Inr 0x27" by (simp add: py_chr_def)
  from py_chr_cases [of PY2 n] show ?thesis
  proof
    assume "py_chr PY2 n = Inl ValueError"
    then show ?thesis by (simp add: runScriptSub_def c0)
  next
    assume "py_chr PY2 n = Inr n"
    then show ?thesis using sendCmd_down [OF assms, of PY2 "[0x27, n]"]
      by (auto simp add: runScriptSub_def c0)
  qed
qed

lemma stopScript_down:
  assumes "\<not> link_up self"
  shows "\<exists>e. stopScript PY2 self = (Inl e, self)"
proof -
  have c0: "py_chr PY2 0x24 = Inr 0x24" by (simp add: py_chr_def)
  show ?thesis using sendCmd_down [OF assms, of PY2 "[0x24]"]
    by (auto simp add: stopScript_def c0)
qed

lemma setTarget_closed_valid:
  assumes o: "\<not> is_open (usb self)" and t: "tables_ok self"
    and h: "list_all (\<lambda>c. 0 \<le> c \<and> c < 256) (PololuCmd self)" and c: "0 \<le> chan" "chan < 24"
  shows "setTarget PY2 self chan target = (Inl PortNotOpenError, self)"
proof -
  have g1: "list_get (Mins self) chan = Inr (Mins self ! nat chan)"
    using t c by (simp add: list_get_in tables_ok_def)
  have g2: "list_get (Maxs self) chan = Inr (Maxs self ! nat chan)"
    using t c by (simp add: list_get_in tables_ok_def)
  have cm: "\<And>v. cmd4 PY2 0x04 chan (lsb_of v) (msb_of v) = Inr [0x04, chan, lsb_of v, msb_of v]"
    using c by (intro cmd4_bytes) auto
  have sn: "\<And>v. sendCmd PY2 self [0x04, chan, lsb_of v, msb_of v] = (Inl PortNotOpenError, self)"
    using o h c by (intro sendCmd_closed_bytes) auto
  show ?thesis
    by (simp add: setTarget_def g1 g2 cm sn Let_def)
qed

section \<open>States of the scenarios\<close>

lemma drive_range:
  "snd (setRange (new_controller answers) 1 5000 7000) =
     (new_controller answers)\<lparr>Mins := (replicate 24 0)[1 := 5000],
                              Maxs := (replicate 24 0)[1 := 7000]\<rparr>"
  using setRange_new [of 1 answers 5000 7000] by simp

lemma closed_new:
  "snd (close (new_controller answers)) =
     (new_controller answers)\<lparr>usb := (fresh_port answers)\<lparr>is_open := False\<rparr>\<rparr>"
  by (simp add: close_def usb_close_def new_controller_def)

lemma commanded_state:
  "snd (setTarget False (new_controller answers) 1 6000) =
     (new_controller answers)\<lparr>usb := (fresh_port answers)\<lparr>written :=
                                 [[0xaa, 0x0c, 0x04, 0x01, 0x70, 0x2e]]\<rparr>,
                              Targets := (replicate 24 0)[1 := 6000]\<rparr>"
proof -
  let ?n = "new_controller answers"
  have n: "Mins ?n ! nat 1 = 0" "Maxs ?n ! nat 1 = 0"
    by (simp_all add: new_controller_def)
  have "setTarget False ?n 1 6000 =
      (Inr (), ?n\<lparr>usb := (usb ?n)\<lparr>written := written (usb ?n) @
                            [[0xaa, 0x0c, 0x04, 1, lsb_of 6000, msb_of 6000]]\<rparr>,
                   Targets := (Targets ?n)[nat 1 := 6000]\<rparr>)"
    using setTarget_sends [of ?n "0x0c" 1 False 6000] n by (simp add: Let_def)
  then show ?thesis
    by (simp add: new_controller_def fresh_port_def lsb_of_mod msb_of_div)
qed

lemma close_closes: "\<not> link_up (snd (close self))" "\<not> is_open (usb (snd (close self)))"
  by (simp_all add: close_def usb_close_def link_up_def)

lemma close_keeps:
  "tables_ok (snd (close self)) = tables_ok self"
  "PololuCmd (snd (close self)) = PololuCmd self"
  by (simp_all add: close_def tables_ok_def)

section \<open>Methods on a closed port\<close>

lemma andThen_Inl [simp]: "andThen (Inl e, s) k = (Inl e, s)"
  by (simp add: andThen_def)

lemma andThen_Inr [simp]: "andThen (Inr x, s) k = k x s"
  by (simp add: andThen_def)

lemma sendCmd_closed_raises:
  assumes "\<not> is_open (usb self)"
  shows "sendCmd PY2 self cmd = (Inl UnicodeEncodeError, self)
         \<or> sendCmd PY2 self cmd = (Inl PortNotOpenError, self)"
  using assms by (simp add: sendCmd_def latin1_def usb_write_def Let_def)

lemma cmd4_Inl: "cmd4 PY2 opcode chan l m = Inl e \<Longrightarrow> e = ValueError"
  by (simp add: cmd4_def py_chr_def split: sum.splits if_splits)

lemma list_get_Inl: "list_get xs i = Inl e \<Longrightarrow> e = IndexError"
  by (simp add: list_get_def Let_def split: if_splits)

lemma raises_send:
  assumes "r = (Inl UnicodeEncodeError, s) \<or> r = (Inl PortNotOpenError, s)"
  shows "\<exists>e. e \<noteq> ReadBlocks \<and> r = (Inl e, s)"
  using assms by auto

lemma raises_index:
  assumes "r = (Inl IndexError, s)"
  shows "\<exists>e. e \<noteq> ReadBlocks \<and> r = (Inl e, s)"
  using assms by auto

lemma raises_value:
  assumes "r = (Inl ValueError, s)"
  shows "\<exists>e. e \<noteq> ReadBlocks \<and> r = (Inl e, s)"
  using assms by auto

lemma send_and_record_closed_raises:
  assumes "\<not> is_open (usb self)"
  shows "\<exists>e. e \<noteq> ReadBlocks
             \<and> send_and_record PY2 self chan v = (Inl e, self)"
proof (cases "cmd4 PY2 0x04 chan (lsb_of v) (msb_of v)")
  case (Inl e)
  then have "send_and_record PY2 self chan v = (Inl ValueError, self)"
    using cmd4_Inl [OF Inl] by (simp add: send_and_record_def)
  then show ?thesis by (rule raises_value)
next
  case (Inr cmd)
  have "sendCmd PY2 self cmd = (Inl UnicodeEncodeError, self)
        \<or> sendCmd PY2 self cmd = (Inl PortNotOpenError, self)"
    using assms by (rule sendCmd_closed_raises)
  then have "send_and_record PY2 self chan v = (Inl UnicodeEncodeError, self)
        \<or> send_and_record PY2 self chan v = (Inl PortNotOpenError, self)"
    by (auto simp add: send_and_record_def Inr)
  then show ?thesis by (rule raises_send)
qed

lemma setTarget_closed_raises:
  assumes "\<not> is_open (usb self)"
  shows "\<exists>e. e \<noteq> ReadBlocks
             \<and> setTarget PY2 self chan target = (Inl e, self)"
proof (cases "list_get (Mins self) chan")
  case (Inl e)
  then have "setTarget PY2 self chan target = (Inl IndexError, self)"
    using list_get_Inl [OF Inl] by (simp add: setTarget_def)
  then show ?thesis by (rule raises_index)
next
  case mn: (Inr mn)
  show ?thesis
  proof (cases "list_get (Maxs self) chan")
    case (Inl e)
    then have "setTarget PY2 self chan target = (Inl IndexError, self)"
      using list_get_Inl [OF Inl] by (simp add: setTarget_def mn Let_def)
    then show ?thesis by (rule raises_index)
  next
    case mx: (Inr mx)
    have "setTarget PY2 self chan target = send_and_record PY2 self chan
        (let t1 = (if mn > 0 \<and> target < mn then mn else target)
         in if mx > 0 \<and> t1 > mx then mx else t1)"
      unfolding setTarget_def send_and_record_def mn mx Let_def by simp
    then show ?thesis
      using send_and_record_closed_raises [OF assms, of PY2 chan] by simp
  qed
qed

lemma setSpeed_closed_raises:
  assumes "\<not> is_open (usb self)"
  shows "\<exists>e. e \<noteq> ReadBlocks
             \<and> setSpeed PY2 self chan speed = (Inl e, self)"
proof (cases "cmd4 PY2 0x07 chan (lsb_of speed) (msb_of speed)")
  case (Inl e)
  then have "setSpeed PY2 self chan speed = (Inl ValueError, self)"
    using cmd4_Inl [OF Inl] by (simp add: setSpeed_def)
  then show ?thesis by (rule raises_value)
next
  case (Inr cmd)
  then have "setSpeed PY2 self chan speed = sendCmd PY2 self cmd"
    by (simp add: setSpeed_def)
  then show ?thesis
    using sendCmd_closed_raises [OF assms, of PY2 cmd] by (simp only:) (rule raises_send)
qed

lemma setAccel_closed_raises:
  assumes "\<not> is_open (usb self)"
  shows "\<exists>e. e \<noteq> ReadBlocks
             \<and> setAccel PY2 self chan accel = (Inl e, self)"
proof (cases "cmd4 PY2 0x09 chan (lsb_of accel) (msb_of accel)")
  case (Inl e)
  then have "setAccel PY2 self chan accel = (Inl ValueError, self)"
    using cmd4_Inl [OF Inl] by (simp add: setAccel_def)
  then show ?thesis by (rule raises_value)
next
  case (Inr cmd)
  then have "setAccel PY2 self chan accel = sendCmd PY2 self cmd"
    by (simp add: setAccel_def)
  then show ?thesis
    using sendCmd_closed_raises [OF assms, of PY2 cmd] by (simp only:) (rule raises_send)
qed

lemma getPosition_closed_raises:
  assumes "\<not> is_open (usb self)"
  shows "\<exists>e. e \<noteq> ReadBlocks
             \<and> getPosition PY2 self chan = (Inl e, self)"
proof -
  have c0: "py_chr PY2 0x10 = Inr 0x10" by (simp add: py_chr_def)
  from py_chr_cases [of PY2 chan] show ?thesis
  proof
    assume "py_chr PY2 chan = Inl ValueError"
    then have "getPosition PY2 self chan = (Inl ValueError, self)"
      by (simp add: getPosition_def c0)
    then show ?thesis by (rule raises_value)
  next
    assume c1: "py_chr PY2 chan = Inr chan"
    have "sendCmd PY2 self [0x10, chan] = (Inl UnicodeEncodeError, self)
          \<or> sendCmd PY2 self [0x10, chan] = (Inl PortNotOpenError, self)"
      using assms by (rule sendCmd_closed_raises)
    then have "getPosition PY2 self chan = (Inl UnicodeEncodeError, self)
          \<or> getPosition PY2 self chan = (Inl PortNotOpenError, self)"
      by (auto simp add: getPosition_def c0 c1)
    then show ?thesis by (rule raises_send)
  qed
qed

lemma getMovingState_closed_raises:
  assumes "\<not> is_open (usb self)"
  shows "\<exists>e. e \<noteq> ReadBlocks
             \<and> getMovingState PY2 self = (Inl e, self)"
proof -
  have c0: "py_chr PY2 0x13 = Inr 0x13" by (simp add: py_chr_def)
  have "sendCmd PY2 self [0x13] = (Inl UnicodeEncodeError, self)
        \<or> sendCmd PY2 self [0x13] = (Inl PortNotOpenError, self)"
    using assms by (rule sendCmd_closed_raises)
  then have "getMovingState PY2 self = (Inl UnicodeEncodeError, self)
        \<or> getMovingState PY2 self = (Inl PortNotOpenError, self)"
    by (auto simp add: getMovingState_def c0)
  then show ?thesis by (rule raises_send)
qed

lemma runScriptSub_closed_raises:
  assumes "\<not> is_open (usb self)"
  shows "\<exists>e. e \<noteq> ReadBlocks
             \<and> runScriptSub PY2 self n = (Inl e, self)"
proof -
  have c0: "py_chr PY2 0x27 = Inr 0x27" by (simp add: py_chr_def)
  from py_chr_cases [of PY2 n] show ?thesis
  proof
    assume "py_chr PY2 n = Inl ValueError"
    then have "runScriptSub PY2 self n = (Inl ValueError, self)"
      by (simp add: runScriptSub_def c0)
    then show ?thesis by (rule raises_value)
  next
    assume "py_chr PY2 n = Inr n"
    then have "runScriptSub PY2 self n = sendCmd PY2 self [0x27, n]"
      by (simp add: runScriptSub_def c0)
    then show ?thesis
      using sendCmd_closed_raises [OF assms, of PY2 "[0x27, n]"]
      by (simp only:) (rule raises_send)
  qed
qed

lemma stopScript_closed_raises:
  assumes "\<not> is_open (usb self)"
  shows "\<exists>e. e \<noteq> ReadBlocks
             \<and> stopScript PY2 self = (Inl e, self)"
proof -
  have c0: "py_chr PY2 0x24 = Inr 0x24" by (simp add: py_chr_def)
  have "stopScript PY2 self = sendCmd PY2 self [0x24]"
    by (simp add: stopScript_def c0)
  then show ?thesis
    using sendCmd_closed_raises [OF assms, of PY2 "[0x24]"]
    by (simp only:) (rule raises_send)
qed

text \<open>
  With bytes for the lead-in, the device number and the arguments, the exception is the
  one of the closed port.
\<close>

lemma setSpeed_closed_valid:
  assumes o: "\<not> is_open (usb self)"
    and h: "list_all (\<lambda>c. 0 \<le> c \<and> c < 256) (PololuCmd self)" and c: "0 \<le> chan" "chan < 24"
  shows "setSpeed PY2 self chan speed = (Inl PortNotOpenError, self)"
proof -
  have cm: "cmd4 PY2 0x07 chan (lsb_of speed) (msb_of speed) = Inr [0x07, chan, lsb_of speed, msb_of speed]"
    using c by (intro cmd4_bytes) auto
  have sn: "sendCmd PY2 self [0x07, chan, lsb_of speed, msb_of speed] = (Inl PortNotOpenError, self)"
    using o h c by (intro sendCmd_closed_bytes) auto
  show ?thesis by (simp add: setSpeed_def cm sn Let_def del: data_byte)
qed

lemma setAccel_closed_valid:
  assumes o: "\<not> is_open (usb self)"
    and h: "list_all (\<lambda>c. 0 \<le> c \<and> c < 256) (PololuCmd self)" and c: "0 \<le> chan" "chan < 24"
  shows "setAccel PY2 self chan accel = (Inl PortNotOpenError, self)"
proof -
  have cm: "cmd4 PY2 0x09 chan (lsb_of accel) (msb_of accel) = Inr [0x09, chan, lsb_of accel, msb_of accel]"
    using c by (intro cmd4_bytes) auto
  have sn: "sendCmd PY2 self [0x09, chan, lsb_of accel, msb_of accel] = (Inl PortNotOpenError, self)"
    using o h c by (intro sendCmd_closed_bytes) auto
  show ?thesis by (simp add: setAccel_def cm sn Let_def del: data_byte)
qed

lemma getPosition_closed_valid:
  assumes o: "\<not> is_open (usb self)"
    and h: "list_all (\<lambda>c. 0 \<le> c \<and> c < 256) (PololuCmd self)" and c: "0 \<le> chan" "chan < 24"
  shows "getPosition PY2 self chan = (Inl PortNotOpenError, self)"
proof -
  have sn: "sendCmd PY2 self [0x10, chan] = (Inl PortNotOpenError, self)"
    using o h c by (intro sendCmd_closed_bytes) auto
  show ?thesis using c by (simp add: getPosition_def py_chr_byte sn)
qed

lemma runScriptSub_closed_valid:
  assumes o: "\<not> is_open (usb self)"
    and h: "list_all (\<lambda>c. 0 \<le> c \<and> c < 256) (PololuCmd self)" and c: "0 \<le> n" "n < 256"
  shows "runScriptSub PY2 self n = (Inl PortNotOpenError, self)"
proof -
  have sn: "sendCmd PY2 self [0x27, n] = (Inl PortNotOpenError, self)"
    using o h c by (intro sendCmd_closed_bytes) auto
  show ?thesis using c by (simp add: runScriptSub_def py_chr_byte sn)
qed

lemma getMovingState_closed_valid:
  assumes o: "\<not> is_open (usb self)"
    and h: "list_all (\<lambda>c. 0 \<le> c \<and> c < 256) (PololuCmd self)"
  shows "getMovingState PY2 self = (Inl PortNotOpenError, self)"
proof -
  have sn: "sendCmd PY2 self [0x13] = (Inl PortNotOpenError, self)"
    using o h by (intro sendCmd_closed_bytes) auto
  show ?thesis by (simp add: getMovingState_def py_chr_byte sn)
qed

lemma stopScript_closed_valid:
  assumes o: "\<not> is_open (usb self)"
    and h: "list_all (\<lambda>c. 0 \<le> c \<and> c < 256) (PololuCmd self)"
  shows "stopScript PY2 self = (Inl PortNotOpenError, self)"
proof -
  have sn: "sendCmd PY2 self [0x24] = (Inl PortNotOpenError, self)"
    using o h by (intro sendCmd_closed_bytes) auto
  show ?thesis by (simp add: stopScript_def py_chr_byte sn)
qed

lemma isMoving_closed_valid:
  assumes o: "\<not> is_open (usb self)" and t: "tables_ok self"
    and h: "list_all (\<lambda>c. 0 \<le> c \<and> c < 256) (PololuCmd self)" and c: "0 \<le> chan" "chan < 24"
  shows "isMoving PY2 self chan =
    (if 0 < Targets self ! nat chan then (Inl PortNotOpenError, self) else (Inr False, self))"
proof -
  have g: "list_get (Targets self) chan = Inr (Targets self ! nat chan)"
    using t c by (simp add: list_get_in tables_ok_def)
  show ?thesis
    by (simp add: isMoving_def g getPosition_closed_valid [OF o h c])
qed

lemma ranged_gesture_closed:
  assumes o: "\<not> is_open (usb self)" and t: "tables_ok self"
    and h: "list_all (\<lambda>c. 0 \<le> c \<and> c < 256) (PololuCmd self)" and c: "0 \<le> chan" "chan < 24"
  shows "andThen (setRange self chan lo hi) (\<lambda>_ self1. andThen (setSpeed PY2 self1 chan speed) k) =
    (Inl PortNotOpenError,
     self\<lparr>Mins := (Mins self)[nat chan := lo], Maxs := (Maxs self)[nat chan := hi]\<rparr>)"
proof -
  let ?s1 = "self\<lparr>Mins := (Mins self)[nat chan := lo], Maxs := (Maxs self)[nat chan := hi]\<rparr>"
  have r: "setRange self chan lo hi = (Inr (), ?s1)"
    using t c by (rule setRange_in)
  have o1: "\<not> is_open (usb ?s1)" using o by simp
  have h1: "list_all (\<lambda>c. 0 \<le> c \<and> c < 256) (PololuCmd ?s1)" using h by simp
  have "setSpeed PY2 ?s1 chan speed = (Inl PortNotOpenError, ?s1)"
    using o1 h1 c by (rule setSpeed_closed_valid)
  then show ?thesis by (simp add: r)
qed

lemma close_fields:
  "Targets (snd (close self)) = Targets self"
  "Mins (snd (close self)) = Mins self"
  "Maxs (snd (close self)) = Maxs self"
  "written (usb (snd (close self))) = written (usb self)"
  by (simp_all add: close_def usb_close_def)

lemma close_result:
  "close self = (Inr (), snd (close self))"
  "close (snd (close self)) = (Inr (), snd (close self))"
  by (simp_all add: close_def usb_close_def)

section \<open>The moving-state query under the two Python versions\<close>

text \<open>
  Under Python 2 the byte read is a \<^verbatim>\<open>str\<close> and line 151 compares it with \<^verbatim>\<open>chr(0)\<close> as
  intended. Under Python 3 the byte read is a \<^verbatim>\<open>bytes\<close>, which never equals the
  \<^verbatim>\<open>str\<close> \<^verbatim>\<open>chr(0)\<close>, so the answer is always True.
\<close>

lemma getMovingState_python2:
  assumes "link_up self" "pending (usb self) = b # rest"
  shows "fst (getMovingState True self) = Inr (b \<noteq> 0)"
  using assms
  by (simp add: getMovingState_def py_chr_def sendCmd_def usb_write_def usb_read_def
      link_up_def Let_def)

lemma getMovingState_python3:
  assumes "link_up self" "list_all (\<lambda>c. 0 \<le> c \<and> c < 256) (PololuCmd self)"
    "pending (usb self) = b # rest"
  shows "fst (getMovingState False self) = Inr True"
  using assms
  by (simp add: getMovingState_def py_chr_def sendCmd_def latin1_def usb_write_def usb_read_def
      link_up_def Let_def)

section \<open>The claims\<close>

text \<open>
  Claim C1. On every channel 0..23 and for every requested target, \<^verbatim>\<open>setTarget\<close>
  first raises the target to the channel's minimum (when the minimum is positive and the
  target is below it), then lowers the result to the channel's maximum (when the maximum
  is positive and the result is above it); it sends the frame of that value and stores
  that value. When both bounds are positive and the minimum exceeds the maximum, the
  value is the maximum.
\<close>

theorem setTarget_min_then_max:
  assumes "tables_ok self" and "link_up self"
    and "PololuCmd self = [0xaa, device]" and "0 \<le> device" and "device < 256"
    and "0 \<le> chan" and "chan < 24"
  shows "let mn = Mins self ! nat chan; mx = Maxs self ! nat chan;
             t1 = (if mn > 0 \<and> target < mn then mn else target);
             t2 = (if mx > 0 \<and> t1 > mx then mx else t1)
         in setTarget PY2 self chan target =
              (Inr (), self\<lparr>usb := (usb self)\<lparr>written := written (usb self) @
                                  [[0xaa, device, 0x04, chan, t2 AND 0x7f, drop_bit 7 t2 AND 0x7f]]\<rparr>,
                            Targets := (Targets self)[nat chan := t2]\<rparr>)
            \<and> (0 < mx \<and> mx < mn \<longrightarrow> t2 = mx)"
  using setTarget_sends [OF assms, of PY2 target]
  by (auto simp add: Let_def lsb_of_def msb_of_def)

text \<open>
  The scenario of the claim, \<^verbatim>\<open>setRange(1, 5000, 7000)\<close> then
  \<^verbatim>\<open>setTarget(1, 8000)\<close>, stores and sends 7000; and with the bounds the other way
  round, \<^verbatim>\<open>setRange(1, 7000, 5000)\<close> then \<^verbatim>\<open>setTarget(1, 6000)\<close>, stores and sends
  the maximum 5000.
\<close>

theorem setTarget_min_then_max_witness:
  "(let self = snd (setRange (new_controller []) 1 5000 7000)
    in tables_ok self \<and> link_up self \<and> PololuCmd self = [0xaa, 0x0c]
       \<and> Mins self ! 1 = 5000 \<and> Maxs self ! 1 = 7000
       \<and> setTarget False self 1 8000 =
            (Inr (), self\<lparr>usb := (usb self)\<lparr>written := [[0xaa, 0x0c, 0x04, 0x01, 0x58, 0x36]]\<rparr>,
                          Targets := (Targets self)[1 := 7000]\<rparr>))
   \<and> (let self = snd (setRange (new_controller []) 1 7000 5000)
      in tables_ok self \<and> link_up self \<and> PololuCmd self = [0xaa, 0x0c]
       \<and> Mins self ! 1 = 7000 \<and> Maxs self ! 1 = 5000
       \<and> setTarget False self 1 6000 =
            (Inr (), self\<lparr>usb := (usb self)\<lparr>written := [[0xaa, 0x0c, 0x04, 0x01, 0x08, 0x27]]\<rparr>,
                          Targets := (Targets self)[1 := 5000]\<rparr>))"
proof -
  let ?a = "snd (setRange (new_controller []) 1 5000 7000)"
  let ?b = "snd (setRange (new_controller []) 1 7000 5000)"
  have a: "tables_ok ?a" "link_up ?a" "PololuCmd ?a = [0xaa, 0x0c]"
    "Mins ?a ! 1 = 5000" "Maxs ?a ! 1 = 7000" "written (usb ?a) = []"
    unfolding setRange_new [of 1, simplified] snd_conv
    by (simp_all add: tables_ok_def link_up_def new_controller_def fresh_port_def)
  have b: "tables_ok ?b" "link_up ?b" "PololuCmd ?b = [0xaa, 0x0c]"
    "Mins ?b ! 1 = 7000" "Maxs ?b ! 1 = 5000" "written (usb ?b) = []"
    unfolding setRange_new [of 1, simplified] snd_conv
    by (simp_all add: tables_ok_def link_up_def new_controller_def fresh_port_def)
  have "setTarget False ?a 1 8000 =
      (Inr (), ?a\<lparr>usb := (usb ?a)\<lparr>written := [[0xaa, 0x0c, 0x04, 0x01, 0x58, 0x36]]\<rparr>,
                  Targets := (Targets ?a)[1 := 7000]\<rparr>)"
    using setTarget_min_then_max [of _ _ 1 8000 False, OF a(1) a(2) a(3)] a(4,5,6)
    by (simp add: Let_def)
  moreover have "setTarget False ?b 1 6000 =
      (Inr (), ?b\<lparr>usb := (usb ?b)\<lparr>written := [[0xaa, 0x0c, 0x04, 0x01, 0x08, 0x27]]\<rparr>,
                  Targets := (Targets ?b)[1 := 5000]\<rparr>)"
    using setTarget_min_then_max [of _ _ 1 6000 False, OF b(1) b(2) b(3)] b(4,5,6)
    by (simp add: Let_def)
  ultimately show ?thesis using a b by (simp add: Let_def)
qed

text \<open>
  Claim C2. With both bounds of the channel 0 and a target in 0..16383, \<^verbatim>\<open>setTarget\<close>
  adds exactly one written frame, \<open>[0xAA, device, 0x04, chan, target & 0x7F,
  (target >> 7) & 0x7F]\<close>, and stores the target as given; the two data bytes carry the
  whole target.
\<close>

theorem setTarget_unrestricted:
  assumes "tables_ok self" and "link_up self"
    and "PololuCmd self = [0xaa, device]" and "0 \<le> device" and "device < 256"
    and "0 \<le> chan" and "chan < 24"
    and "Mins self ! nat chan = 0" and "Maxs self ! nat chan = 0"
    and "0 \<le> target" and "target \<le> 16383"
  shows "setTarget PY2 self chan target =
           (Inr (), self\<lparr>usb := (usb self)\<lparr>written := written (usb self) @
                               [[0xaa, device, 0x04, chan, target AND 0x7f, drop_bit 7 target AND 0x7f]]\<rparr>,
                         Targets := (Targets self)[nat chan := target]\<rparr>)
         \<and> (target AND 0x7f) + 128 * (drop_bit 7 target AND 0x7f) = target"
proof -
  have "target div 128 < 128" using assms(11) by simp
  then have "(target div 128) mod 128 = target div 128"
    using assms(10) by (simp add: pos_imp_zdiv_nonneg_iff)
  then have "lsb_of target + 128 * msb_of target = target"
    by (simp add: lsb_of_mod msb_of_div)
  then show ?thesis
    using setTarget_sends [OF assms(1-7), of PY2 target] assms(8,9)
    by (simp add: Let_def lsb_of_def msb_of_def)
qed

theorem setTarget_unrestricted_witness:
  "tables_ok (new_controller []) \<and> link_up (new_controller [])
   \<and> PololuCmd (new_controller []) = [0xaa, 0x0c]
   \<and> Mins (new_controller []) ! 5 = 0 \<and> Maxs (new_controller []) ! 5 = 0
   \<and> setTarget False (new_controller []) 5 6000 =
       (Inr (), (new_controller [])\<lparr>usb := (usb (new_controller []))\<lparr>written :=
                                       [[0xaa, 0x0c, 0x04, 0x05, 0x70, 0x2e]]\<rparr>,
                                    Targets := (Targets (new_controller []))[5 := 6000]\<rparr>)"
proof -
  have m: "Mins (new_controller []) ! nat 5 = 0" "Maxs (new_controller []) ! nat 5 = 0"
    "written (usb (new_controller [])) = []"
    by (simp_all add: new_controller_def fresh_port_def)
  show ?thesis
    using setTarget_unrestricted [of _ _ 5 6000 False, OF new_controller_ok(1) new_controller_ok(2) new_controller_ok(3) _ _ _ _ m(1) m(2)] m
    by simp
qed

text \<open>
  Claim C3, as stated, fails at 128: the bytes sent for 128 are 0 and 1, and two response
  bytes 0 and 1 are read as 256.
\<close>

theorem encode_decode_counterexample:
  "combine (lsb_of 128) (msb_of 128) \<noteq> 128"
  by (simp add: lsb_of_mod msb_of_div combine_eq)

text \<open>
  Claim C3, amended. For a value in 0..16383, splitting it as \<^verbatim>\<open>setTarget\<close> does and
  recombining the two bytes as \<^verbatim>\<open>getPosition\<close> does gives the value plus 128 times its
  upper seven bits: it gives the value back exactly when the value is at most 127.
\<close>

theorem encode_decode_roundtrip_below_128:
  assumes "0 \<le> v" and "v \<le> 16383"
  shows "combine (lsb_of v) (msb_of v) = v + 128 * (v div 128)
         \<and> (combine (lsb_of v) (msb_of v) = v \<longleftrightarrow> v \<le> 127)"
proof -
  have "v div 128 < 128" using assms(2) by simp
  moreover have "0 \<le> v div 128" using assms(1) by (simp add: pos_imp_zdiv_nonneg_iff)
  ultimately have m: "msb_of v = v div 128" by (simp add: msb_of_div)
  have c: "combine (lsb_of v) (msb_of v) = v + 128 * (v div 128)"
    unfolding combine_eq m lsb_of_mod by presburger
  have "v div 128 = 0 \<longleftrightarrow> v \<le> 127" using assms(1) by presburger
  with c show ?thesis by auto
qed

theorem encode_decode_roundtrip_below_128_witness:
  "(0::int) \<le> 100 \<and> (100::int) \<le> 16383 \<and> (100::int) \<le> 127
   \<and> combine (lsb_of 100) (msb_of 100) = 100"
  using encode_decode_roundtrip_below_128 [of 100] by simp

text \<open>
  Claim C4. The target table is changed only by a \<^verbatim>\<open>setTarget\<close> that succeeds, and then
  only at the entry of its channel: \<^verbatim>\<open>getPosition\<close> leaves every entry as it was; a
  \<^verbatim>\<open>setTarget\<close> that raises, whatever the exception, leaves the table as it was, and
  when the link is down (the port closed or the write failing) it raises and leaves the
  whole controller as it was; every other method leaves the table as it was.
\<close>

theorem Targets_changed_only_by_successful_setTarget:
  "Targets (snd (getPosition PY2 self chan)) = Targets self
   \<and> (fst (setTarget PY2 self chan target) = Inl e \<longrightarrow>
        Targets (snd (setTarget PY2 self chan target)) = Targets self)
   \<and> (\<not> link_up self \<longrightarrow> (\<exists>e'. setTarget PY2 self chan target = (Inl e', self)))
   \<and> (fst (setTarget PY2 self chan target) = Inr () \<longrightarrow>
        0 \<le> chan \<and> (\<forall>i. i \<noteq> nat chan \<longrightarrow>
          Targets (snd (setTarget PY2 self chan target)) ! i = Targets self ! i))
   \<and> Targets (snd (close self)) = Targets self
   \<and> Targets (snd (setRange self chan mn mx)) = Targets self
   \<and> Targets (snd (getMin self chan)) = Targets self
   \<and> Targets (snd (getMax self chan)) = Targets self
   \<and> Targets (snd (setSpeed PY2 self chan v)) = Targets self
   \<and> Targets (snd (setAccel PY2 self chan v)) = Targets self
   \<and> Targets (snd (isMoving PY2 self chan)) = Targets self
   \<and> Targets (snd (getMovingState PY2 self)) = Targets self
   \<and> Targets (snd (runScriptSub PY2 self n)) = Targets self
   \<and> Targets (snd (stopScript PY2 self)) = Targets self"
proof -
  have ok: "fst (setTarget PY2 self chan target) = Inr () \<longrightarrow>
        0 \<le> chan \<and> (\<forall>i. i \<noteq> nat chan \<longrightarrow>
          Targets (snd (setTarget PY2 self chan target)) ! i = Targets self ! i)"
  proof
    assume "fst (setTarget PY2 self chan target) = Inr ()"
    from setTarget_success_entry [OF this]
    obtain w where "0 \<le> chan"
      and "Targets (snd (setTarget PY2 self chan target)) = (Targets self)[nat chan := w]"
      by blast
    then show "0 \<le> chan \<and> (\<forall>i. i \<noteq> nat chan \<longrightarrow>
          Targets (snd (setTarget PY2 self chan target)) ! i = Targets self ! i)"
      by simp
  qed
  have bad: "fst (setTarget PY2 self chan target) = Inl e \<longrightarrow>
        Targets (snd (setTarget PY2 self chan target)) = Targets self"
    using setTarget_failure_keeps by blast
  have down: "\<not> link_up self \<longrightarrow> (\<exists>e'. setTarget PY2 self chan target = (Inl e', self))"
    using setTarget_down by blast
  have local: "Targets (snd (close self)) = Targets self"
    "Targets (snd (getMin self chan)) = Targets self"
    "Targets (snd (getMax self chan)) = Targets self"
    by (simp_all add: close_def getMin_def getMax_def)
  show ?thesis
    using ok bad down local getPosition_keeps_Targets [of PY2 self chan]
      setRange_keeps_Targets [of self chan mn mx]
      setSpeed_keeps_Targets [of PY2 self chan v] setAccel_keeps_Targets [of PY2 self chan v]
      isMoving_keeps_Targets [of PY2 self chan] getMovingState_keeps_Targets [of PY2 self]
      runScriptSub_keeps_Targets [of PY2 self n] stopScript_keeps_Targets [of PY2 self]
    by simp
qed

text \<open>
  On a closed controller \<^verbatim>\<open>setTarget(1, 6000)\<close> raises and the table is unchanged; on
  a new controller it succeeds, stores 6000 at entry 1 and leaves entry 2 alone.
\<close>

theorem Targets_changed_only_by_successful_setTarget_witness:
  "(let self = snd (close (new_controller []))
    in \<not> link_up self
       \<and> fst (setTarget False self 1 6000) = Inl PortNotOpenError
       \<and> Targets (snd (setTarget False self 1 6000)) = Targets self)
   \<and> (let self = new_controller []
      in fst (setTarget False self 1 6000) = Inr ()
         \<and> (2::nat) \<noteq> nat 1
         \<and> Targets (snd (setTarget False self 1 6000)) ! 2 = Targets self ! 2
         \<and> Targets (snd (setTarget False self 1 6000)) ! 1 = 6000)"
proof -
  let ?c = "snd (close (new_controller []))"
  let ?n = "new_controller []"
  have c: "\<not> is_open (usb ?c)" "tables_ok ?c" "list_all (\<lambda>c. 0 \<le> c \<and> c < 256) (PololuCmd ?c)"
    unfolding closed_new
    by (simp_all add: tables_ok_def new_controller_def fresh_port_def)
  have f: "setTarget False ?c 1 6000 = (Inl PortNotOpenError, ?c)"
    using c by (intro setTarget_closed_valid) auto
  have n: "Mins ?n ! nat 1 = 0" "Maxs ?n ! nat 1 = 0"
    by (simp_all add: new_controller_def)
  have g: "setTarget False ?n 1 6000 =
      (Inr (), ?n\<lparr>usb := (usb ?n)\<lparr>written := written (usb ?n) @
                            [[0xaa, 0x0c, 0x04, 1, lsb_of 6000, msb_of 6000]]\<rparr>,
                   Targets := (Targets ?n)[nat 1 := 6000]\<rparr>)"
    using setTarget_sends [of ?n "0x0c" 1 False 6000] n by (simp add: Let_def)
  have l: "length (Targets ?n) = 24" by (simp add: new_controller_def)
  from f have f1: "fst (setTarget False ?c 1 6000) = Inl PortNotOpenError" by simp
  from g have g1: "fst (setTarget False ?n 1 6000) = Inr ()" by simp
  have "Targets (snd (setTarget False ?c 1 6000)) = Targets ?c"
    using Targets_changed_only_by_successful_setTarget
      [of False ?c 1 6000 PortNotOpenError] f1 by blast
  moreover have "Targets (snd (setTarget False ?n 1 6000)) ! 2 = Targets ?n ! 2"
    using Targets_changed_only_by_successful_setTarget [of False ?n 1 6000] g1 by simp
  moreover have "Targets (snd (setTarget False ?n 1 6000)) ! 1 = 6000"
    using g l by simp
  moreover have "\<not> link_up ?c" using c(1) by (simp add: link_up_def)
  ultimately show ?thesis using f1 g1 by (simp add: Let_def)
qed

text \<open>
  Claim C5. When the stored target of the channel is 0, \<^verbatim>\<open>isMoving\<close> returns False
  without a query, whatever the device would answer. When the stored target is positive
  and \<^verbatim>\<open>getPosition\<close> returns \<open>p\<close>, \<^verbatim>\<open>isMoving\<close> returns True exactly when \<open>p\<close>
  differs from the stored target; on a working link that is when the two response bytes,
  read as \<^verbatim>\<open>(msb << 8) + lsb\<close>, differ from it.
\<close>

theorem isMoving_compares_position_with_target:
  "(list_get (Targets self) chan = Inr 0 \<longrightarrow> isMoving PY2 self chan = (Inr False, self))
   \<and> (list_get (Targets self) chan = Inr t \<and> 0 < t
        \<and> getPosition PY2 self chan = (Inr p, self1) \<longrightarrow>
        isMoving PY2 self chan = (Inr (p \<noteq> t), self1))
   \<and> (list_get (Targets self) chan = Inr t \<and> 0 < t \<and> link_up self
        \<and> list_all (\<lambda>c. 0 \<le> c \<and> c < 256) (PololuCmd self) \<and> 0 \<le> chan \<and> chan < 24
        \<and> pending (usb self) = lsb # msb # rest \<longrightarrow>
        fst (isMoving PY2 self chan) = Inr (push_bit 8 msb + lsb \<noteq> t))"
proof -
  have a: "list_get (Targets self) chan = Inr 0 \<longrightarrow> isMoving PY2 self chan = (Inr False, self)"
    by (simp add: isMoving_def)
  have b: "isMoving PY2 self chan = (Inr (q \<noteq> t), s)"
    if "list_get (Targets self) chan = Inr t" "0 < t" "getPosition PY2 self chan = (Inr q, s)"
    for q s
  proof -
    have "Targets s = Targets self"
      using getPosition_keeps_Targets [of PY2 self chan] that(3) by simp
    then show ?thesis using that by (simp add: isMoving_def)
  qed
  have c: "fst (isMoving PY2 self chan) = Inr (push_bit 8 msb + lsb \<noteq> t)"
    if "list_get (Targets self) chan = Inr t" "0 < t" "link_up self"
      "list_all (\<lambda>c. 0 \<le> c \<and> c < 256) (PololuCmd self)" "0 \<le> chan" "chan < 24"
      "pending (usb self) = lsb # msb # rest"
  proof -
    have "chan < 256" using that(6) by simp
    from getPosition_reads [OF that(3) that(4) that(5) this that(7), of PY2]
    show ?thesis using b [OF that(1) that(2)] by (simp add: combine_def)
  qed
  show ?thesis using a b c by blast
qed

text \<open>
  A channel never commanded is not moving, whatever the device answers; after
  \<^verbatim>\<open>setTarget(1, 6000)\<close> the channel is not moving when the device answers 6000 and
  moving when it answers 5999.
\<close>

theorem isMoving_compares_position_with_target_witness:
  "list_get (Targets (new_controller [0x34, 0x12])) 1 = Inr 0
   \<and> isMoving False (new_controller [0x34, 0x12]) 1 = (Inr False, new_controller [0x34, 0x12])
   \<and> (let self = snd (setTarget False (new_controller [0x70, 0x17]) 1 6000)
      in list_get (Targets self) 1 = Inr 6000 \<and> link_up self
         \<and> pending (usb self) = [0x70, 0x17]
         \<and> fst (getPosition False self 1) = Inr 6000
         \<and> fst (isMoving False self 1) = Inr False)
   \<and> (let self = snd (setTarget False (new_controller [0x6f, 0x17]) 1 6000)
      in list_get (Targets self) 1 = Inr 6000 \<and> link_up self
         \<and> pending (usb self) = [0x6f, 0x17]
         \<and> fst (getPosition False self 1) = Inr 5999
         \<and> fst (isMoving False self 1) = Inr True)"
proof -
  let ?z = "new_controller [0x34, 0x12]"
  let ?a = "snd (setTarget False (new_controller [0x70, 0x17]) 1 6000)"
  let ?b = "snd (setTarget False (new_controller [0x6f, 0x17]) 1 6000)"
  have z: "list_get (Targets ?z) 1 = Inr 0"
    by (simp add: list_get_def new_controller_def)
  have a: "list_get (Targets ?a) 1 = Inr 6000" "link_up ?a"
    "list_all (\<lambda>c. 0 \<le> c \<and> c < 256) (PololuCmd ?a)" "pending (usb ?a) = [0x70, 0x17]"
    unfolding commanded_state
    by (simp_all add: list_get_def link_up_def new_controller_def fresh_port_def)
  have b: "list_get (Targets ?b) 1 = Inr 6000" "link_up ?b"
    "list_all (\<lambda>c. 0 \<le> c \<and> c < 256) (PololuCmd ?b)" "pending (usb ?b) = [0x6f, 0x17]"
    unfolding commanded_state
    by (simp_all add: list_get_def link_up_def new_controller_def fresh_port_def)
  have pa: "fst (getPosition False ?a 1) = Inr 6000"
    using getPosition_reads [OF a(2) a(3) _ _ a(4), of 1 False] by (simp add: combine_eq)
  have pb: "fst (getPosition False ?b 1) = Inr 5999"
    using getPosition_reads [OF b(2) b(3) _ _ b(4), of 1 False] by (simp add: combine_eq)
  have "isMoving False ?z 1 = (Inr False, ?z)"
    using isMoving_compares_position_with_target [of ?z 1 False] z by blast
  moreover have "fst (isMoving False ?a 1) = Inr False"
    using isMoving_compares_position_with_target [of ?a 1 False 6000 _ _ "0x70" "0x17" "[]"] a
    by (simp add: push_bit_eq_mult)
  moreover have "fst (isMoving False ?b 1) = Inr True"
    using isMoving_compares_position_with_target [of ?b 1 False 6000 _ _ "0x6f" "0x17" "[]"] b
    by (simp add: push_bit_eq_mult)
  ultimately show ?thesis using z a b pa pb by (simp add: Let_def)
qed

text \<open>
  Claim C6 fails under Python 3: when the device answers the byte 0 to the query of opcode
  0x13, \<^verbatim>\<open>getMovingState\<close> sends the frame, reads the byte and returns True.
\<close>

theorem getMovingState_python3_zero_byte:
  "getMovingState False (new_controller [0]) =
     (Inr True, (new_controller [0])\<lparr>usb := (fresh_port [])\<lparr>written := [[0xaa, 0x0c, 0x13]]\<rparr>\<rparr>)"
  by (simp add: getMovingState_def py_chr_def sendCmd_def latin1_def usb_write_def usb_read_def
      new_controller_def fresh_port_def Let_def)

text \<open>
  Claim C7, as stated, fails: the frame sent by the scenario is not the one the claim
  gives, whose fifth byte is 0x4C.
\<close>

theorem range_then_target_frame_counterexample:
  "written (usb (snd (setTarget False (snd (setRange (new_controller []) 1 5000 7000)) 1 6900)))
     \<noteq> [[0xaa, 0x0c, 0x04, 0x01, 0x4c, 0x35]]"
proof -
  let ?a = "snd (setRange (new_controller []) 1 5000 7000)"
  have a: "tables_ok ?a" "link_up ?a" "PololuCmd ?a = [0xaa, 0x0c]"
    "Mins ?a ! nat 1 = 5000" "Maxs ?a ! nat 1 = 7000" "written (usb ?a) = []"
    unfolding drive_range
    by (simp_all add: tables_ok_def link_up_def new_controller_def fresh_port_def)
  show ?thesis
    using setTarget_sends [OF a(1) a(2) a(3), of 1 False 6900] a(4,5,6)
    by (simp add: Let_def lsb_of_mod msb_of_div)
qed

text \<open>
  Claim C7, amended. A controller built with the default device number 0x0C, after
  \<^verbatim>\<open>setRange(1, 5000, 7000)\<close>, sends for \<^verbatim>\<open>setTarget(1, 6900)\<close> exactly the frame
  \<open>[0xAA, 0x0C, 0x04, 0x01, 0x74, 0x35]\<close>.
\<close>

theorem range_then_target_frame:
  "Controller_init PY2 (Inr (fresh_port answers)) 0x0c = Inr (new_controller answers)
   \<and> fst (setRange (new_controller answers) 1 5000 7000) = Inr ()
   \<and> fst (setTarget PY2 (snd (setRange (new_controller answers) 1 5000 7000)) 1 6900) = Inr ()
   \<and> written (usb (snd (setTarget PY2 (snd (setRange (new_controller answers) 1 5000 7000)) 1 6900)))
       = [[0xaa, 0x0c, 0x04, 0x01, 0x74, 0x35]]"
proof -
  let ?a = "snd (setRange (new_controller answers) 1 5000 7000)"
  have a: "tables_ok ?a" "link_up ?a" "PololuCmd ?a = [0xaa, 0x0c]"
    "Mins ?a ! nat 1 = 5000" "Maxs ?a ! nat 1 = 7000" "written (usb ?a) = []"
    unfolding drive_range
    by (simp_all add: tables_ok_def link_up_def new_controller_def fresh_port_def)
  have r: "fst (setRange (new_controller answers) 1 5000 7000) = Inr ()"
    by (simp add: setRange_new)
  show ?thesis
    using setTarget_sends [OF a(1) a(2) a(3), of 1 PY2 6900] a(4,5,6) r
    by (simp add: Let_def lsb_of_mod msb_of_div Controller_init_default)
qed

text \<open>
  Claim C8, as stated, fails: after \<^verbatim>\<open>close()\<close>, \<^verbatim>\<open>setRange\<close> succeeds and takes
  effect, \<^verbatim>\<open>isMoving\<close> on a channel never commanded returns False, and the exception of
  \<^verbatim>\<open>setTarget\<close> is the serial library's, for a port that is not open.
\<close>

theorem closed_controller_counterexample:
  "fst (setRange (snd (close (new_controller []))) 1 5000 7000) = Inr ()
   \<and> fst (getMin (snd (setRange (snd (close (new_controller []))) 1 5000 7000)) 1) = Inr 5000
   \<and> fst (isMoving False (snd (close (new_controller []))) 1) = Inr False
   \<and> fst (setTarget False (snd (close (new_controller []))) 1 6000) = Inl PortNotOpenError"
proof -
  let ?c = "snd (close (new_controller []))"
  have c: "\<not> is_open (usb ?c)" "tables_ok ?c" "list_all (\<lambda>c. 0 \<le> c \<and> c < 256) (PololuCmd ?c)"
    unfolding closed_new
    by (simp_all add: tables_ok_def new_controller_def fresh_port_def)
  have f: "setTarget False ?c 1 6000 = (Inl PortNotOpenError, ?c)"
    using c by (intro setTarget_closed_valid) auto
  have r: "setRange ?c 1 5000 7000 =
      (Inr (), ?c\<lparr>Mins := (Mins ?c)[nat 1 := 5000], Maxs := (Maxs ?c)[nat 1 := 7000]\<rparr>)"
    using c(2) by (intro setRange_in) auto
  have l: "length (Mins ?c) = 24" "Targets ?c = replicate 24 0"
    unfolding closed_new by (simp_all add: new_controller_def)
  have g: "fst (getMin (snd (setRange ?c 1 5000 7000)) 1) = Inr 5000"
    unfolding r using l by (simp add: getMin_def list_get_def)
  have m: "fst (isMoving False ?c 1) = Inr False"
    using l by (simp add: isMoving_def list_get_def)
  show ?thesis using f r g m by simp
qed

text \<open>
  Claim C8, amended. The code has no \<^verbatim>\<open>ClosedControllerError\<close>. After \<^verbatim>\<open>close()\<close>,
  which writes nothing:
  \<^item> whatever their arguments, \<^verbatim>\<open>setTarget\<close>, \<^verbatim>\<open>setSpeed\<close>, \<^verbatim>\<open>setAccel\<close>,
    \<^verbatim>\<open>getPosition\<close>, \<^verbatim>\<open>getMovingState\<close>, \<^verbatim>\<open>runScriptSub\<close> and \<^verbatim>\<open>stopScript\<close>
    raise an exception and leave the controller as \<^verbatim>\<open>close()\<close> left it;
  \<^item> on a controller with tables of 24 entries and bytes for the lead-in and the device
    number, for a channel in 0..23 and a subroutine number in 0..255, the exception of
    each of these seven is the serial library's, for a port that is not open;
    \<^verbatim>\<open>isMoving\<close> raises it when the stored target of the channel is positive and
    returns False otherwise; \<^verbatim>\<open>setRange\<close> stores the bounds, \<^verbatim>\<open>getMin\<close> and
    \<^verbatim>\<open>getMax\<close> return theirs and a second \<^verbatim>\<open>close()\<close> succeeds; each gesture that
    sets a range stores that range and then raises the same exception, and
    \<^verbatim>\<open>resetAll\<close> raises it with the controller unchanged.
  In each case the port of the controller returned is the port \<^verbatim>\<open>close()\<close> left, so no
  byte has been written.
\<close>

theorem closed_controller_raises_on_transmission:
  "(let c = snd (close self)
    in close self = (Inr (), c) \<and> written (usb c) = written (usb self)
       \<and> (\<exists>e. e \<noteq> ReadBlocks
                \<and> setTarget PY2 c a b = (Inl e, c))
       \<and> (\<exists>e. e \<noteq> ReadBlocks
                \<and> setSpeed PY2 c a b = (Inl e, c))
       \<and> (\<exists>e. e \<noteq> ReadBlocks
                \<and> setAccel PY2 c a b = (Inl e, c))
       \<and> (\<exists>e. e \<noteq> ReadBlocks
                \<and> getPosition PY2 c a = (Inl e, c))
       \<and> (\<exists>e. e \<noteq> ReadBlocks
                \<and> getMovingState PY2 c = (Inl e, c))
       \<and> (\<exists>e. e \<noteq> ReadBlocks
                \<and> runScriptSub PY2 c a = (Inl e, c))
       \<and> (\<exists>e. e \<noteq> ReadBlocks
                \<and> stopScript PY2 c = (Inl e, c))
       \<and> (tables_ok self \<and> list_all (\<lambda>x. 0 \<le> x \<and> x < 256) (PololuCmd self)
            \<and> 0 \<le> chan \<and> chan < 24 \<and> 0 \<le> n \<and> n < 256 \<longrightarrow>
            setTarget PY2 c chan v = (Inl PortNotOpenError, c)
            \<and> setSpeed PY2 c chan v = (Inl PortNotOpenError, c)
            \<and> setAccel PY2 c chan v = (Inl PortNotOpenError, c)
            \<and> getPosition PY2 c chan = (Inl PortNotOpenError, c)
            \<and> getMovingState PY2 c = (Inl PortNotOpenError, c)
            \<and> runScriptSub PY2 c n = (Inl PortNotOpenError, c)
            \<and> stopScript PY2 c = (Inl PortNotOpenError, c)
            \<and> isMoving PY2 c chan =
                (if 0 < Targets self ! nat chan then (Inl PortNotOpenError, c)
                 else (Inr False, c))
            \<and> setRange c chan mn mx =
                (Inr (), c\<lparr>Mins := (Mins self)[nat chan := mn],
                           Maxs := (Maxs self)[nat chan := mx]\<rparr>)
            \<and> getMin c chan = (Inr (Mins self ! nat chan), c)
            \<and> getMax c chan = (Inr (Maxs self ! nat chan), c)
            \<and> close c = (Inr (), c)
            \<and> rotateHeadRight PY2 c = (Inl PortNotOpenError,
                 c\<lparr>Mins := (Mins self)[3 := 4000], Maxs := (Maxs self)[3 := 8000]\<rparr>)
            \<and> rotateHeadLeft PY2 c = (Inl PortNotOpenError,
                 c\<lparr>Mins := (Mins self)[3 := 4000], Maxs := (Maxs self)[3 := 8000]\<rparr>)
            \<and> tiltHeadUp PY2 c = (Inl PortNotOpenError,
                 c\<lparr>Mins := (Mins self)[4 := 4000], Maxs := (Maxs self)[4 := 8000]\<rparr>)
            \<and> tiltHeadDown PY2 c = (Inl PortNotOpenError,
                 c\<lparr>Mins := (Mins self)[4 := 4000], Maxs := (Maxs self)[4 := 8000]\<rparr>)
            \<and> turnRight PY2 c = (Inl PortNotOpenError,
                 c\<lparr>Mins := (Mins self)[2 := 5000], Maxs := (Maxs self)[2 := 7000]\<rparr>)
            \<and> turnLeft PY2 c = (Inl PortNotOpenError,
                 c\<lparr>Mins := (Mins self)[2 := 5000], Maxs := (Maxs self)[2 := 7000]\<rparr>)
            \<and> moveForward PY2 c = (Inl PortNotOpenError,
                 c\<lparr>Mins := (Mins self)[1 := 5000], Maxs := (Maxs self)[1 := 7000]\<rparr>)
            \<and> moveForwarder PY2 c = (Inl PortNotOpenError,
                 c\<lparr>Mins := (Mins self)[1 := 5000], Maxs := (Maxs self)[1 := 7000]\<rparr>)
            \<and> moveForwardest PY2 c = (Inl PortNotOpenError,
                 c\<lparr>Mins := (Mins self)[1 := 5000], Maxs := (Maxs self)[1 := 7000]\<rparr>)
            \<and> moveBackward PY2 c = (Inl PortNotOpenError,
                 c\<lparr>Mins := (Mins self)[1 := 5000], Maxs := (Maxs self)[1 := 7000]\<rparr>)
            \<and> moveBackwarder PY2 c = (Inl PortNotOpenError,
                 c\<lparr>Mins := (Mins self)[1 := 5000], Maxs := (Maxs self)[1 := 7000]\<rparr>)
            \<and> moveBackwardest PY2 c = (Inl PortNotOpenError,
                 c\<lparr>Mins := (Mins self)[1 := 5000], Maxs := (Maxs self)[1 := 7000]\<rparr>)
            \<and> stopMotion PY2 c = (Inl PortNotOpenError,
                 c\<lparr>Mins := (Mins self)[1 := 5000], Maxs := (Maxs self)[1 := 7000]\<rparr>)
            \<and> resetAll PY2 c = (Inl PortNotOpenError, c)))"
proof -
  let ?c = "snd (close self)"
  note o = close_closes(2) [of self]
  have valid: "setTarget PY2 ?c chan v = (Inl PortNotOpenError, ?c)
            \<and> setSpeed PY2 ?c chan v = (Inl PortNotOpenError, ?c)
            \<and> setAccel PY2 ?c chan v = (Inl PortNotOpenError, ?c)
            \<and> getPosition PY2 ?c chan = (Inl PortNotOpenError, ?c)
            \<and> getMovingState PY2 ?c = (Inl PortNotOpenError, ?c)
            \<and> runScriptSub PY2 ?c n = (Inl PortNotOpenError, ?c)
            \<and> stopScript PY2 ?c = (Inl PortNotOpenError, ?c)
            \<and> isMoving PY2 ?c chan =
                (if 0 < Targets self ! nat chan then (Inl PortNotOpenError, ?c)
                 else (Inr False, ?c))
            \<and> setRange ?c chan mn mx =
                (Inr (), ?c\<lparr>Mins := (Mins self)[nat chan := mn],
                           Maxs := (Maxs self)[nat chan := mx]\<rparr>)
            \<and> getMin ?c chan = (Inr (Mins self ! nat chan), ?c)
            \<and> getMax ?c chan = (Inr (Maxs self ! nat chan), ?c)
            \<and> close ?c = (Inr (), ?c)
            \<and> rotateHeadRight PY2 ?c = (Inl PortNotOpenError,
                 ?c\<lparr>Mins := (Mins self)[3 := 4000], Maxs := (Maxs self)[3 := 8000]\<rparr>)
            \<and> rotateHeadLeft PY2 ?c = (Inl PortNotOpenError,
                 ?c\<lparr>Mins := (Mins self)[3 := 4000], Maxs := (Maxs self)[3 := 8000]\<rparr>)
            \<and> tiltHeadUp PY2 ?c = (Inl PortNotOpenError,
                 ?c\<lparr>Mins := (Mins self)[4 := 4000], Maxs := (Maxs self)[4 := 8000]\<rparr>)
            \<and> tiltHeadDown PY2 ?c = (Inl PortNotOpenError,
                 ?c\<lparr>Mins := (Mins self)[4 := 4000], Maxs := (Maxs self)[4 := 8000]\<rparr>)
            \<and> turnRight PY2 ?c = (Inl PortNotOpenError,
                 ?c\<lparr>Mins := (Mins self)[2 := 5000], Maxs := (Maxs self)[2 := 7000]\<rparr>)
            \<and> turnLeft PY2 ?c = (Inl PortNotOpenError,
                 ?c\<lparr>Mins := (Mins self)[2 := 5000], Maxs := (Maxs self)[2 := 7000]\<rparr>)
            \<and> moveForward PY2 ?c = (Inl PortNotOpenError,
                 ?c\<lparr>Mins := (Mins self)[1 := 5000], Maxs := (Maxs self)[1 := 7000]\<rparr>)
            \<and> moveForwarder PY2 ?c = (Inl PortNotOpenError,
                 ?c\<lparr>Mins := (Mins self)[1 := 5000], Maxs := (Maxs self)[1 := 7000]\<rparr>)
            \<and> moveForwardest PY2 ?c = (Inl PortNotOpenError,
                 ?c\<lparr>Mins := (Mins self)[1 := 5000], Maxs := (Maxs self)[1 := 7000]\<rparr>)
            \<and> moveBackward PY2 ?c = (Inl PortNotOpenError,
                 ?c\<lparr>Mins := (Mins self)[1 := 5000], Maxs := (Maxs self)[1 := 7000]\<rparr>)
            \<and> moveBackwarder PY2 ?c = (Inl PortNotOpenError,
                 ?c\<lparr>Mins := (Mins self)[1 := 5000], Maxs := (Maxs self)[1 := 7000]\<rparr>)
            \<and> moveBackwardest PY2 ?c = (Inl PortNotOpenError,
                 ?c\<lparr>Mins := (Mins self)[1 := 5000], Maxs := (Maxs self)[1 := 7000]\<rparr>)
            \<and> stopMotion PY2 ?c = (Inl PortNotOpenError,
                 ?c\<lparr>Mins := (Mins self)[1 := 5000], Maxs := (Maxs self)[1 := 7000]\<rparr>)
            \<and> resetAll PY2 ?c = (Inl PortNotOpenError, ?c)"
    if hyp: "tables_ok self \<and> list_all (\<lambda>x. 0 \<le> x \<and> x < 256) (PololuCmd self)
            \<and> 0 \<le> chan \<and> chan < 24 \<and> 0 \<le> n \<and> n < 256"
  proof -
    have t: "tables_ok ?c" using hyp by (simp add: close_keeps)
    have h: "list_all (\<lambda>x. 0 \<le> x \<and> x < 256) (PololuCmd ?c)" using hyp by (simp add: close_keeps)
    have c: "0 \<le> chan" "chan < 24" and n: "0 \<le> n" "n < 256" using hyp by simp_all
    have len: "length (Mins self) = 24" "length (Maxs self) = 24"
      using hyp by (simp_all add: tables_ok_def)
    have g: "\<And>ch lo hi sp k. 0 \<le> ch \<Longrightarrow> ch < 24 \<Longrightarrow>
      andThen (setRange ?c ch lo hi) (\<lambda>_ self1. andThen (setSpeed PY2 self1 ch sp) k) =
      (Inl PortNotOpenError,
       ?c\<lparr>Mins := (Mins self)[nat ch := lo], Maxs := (Maxs self)[nat ch := hi]\<rparr>)"
      using ranged_gesture_closed [OF o t h] by (simp add: close_fields)
    have p1: "setTarget PY2 ?c chan v = (Inl PortNotOpenError, ?c)"
      using o t h c by (rule setTarget_closed_valid)
    have p2: "setSpeed PY2 ?c chan v = (Inl PortNotOpenError, ?c)"
      using o h c by (rule setSpeed_closed_valid)
    have p3: "setAccel PY2 ?c chan v = (Inl PortNotOpenError, ?c)"
      using o h c by (rule setAccel_closed_valid)
    have p4: "getPosition PY2 ?c chan = (Inl PortNotOpenError, ?c)"
      using o h c by (rule getPosition_closed_valid)
    have p5: "getMovingState PY2 ?c = (Inl PortNotOpenError, ?c)"
      using o h by (rule getMovingState_closed_valid)
    have p6: "runScriptSub PY2 ?c n = (Inl PortNotOpenError, ?c)"
      using o h n by (rule runScriptSub_closed_valid)
    have p7: "stopScript PY2 ?c = (Inl PortNotOpenError, ?c)"
      using o h by (rule stopScript_closed_valid)
    have p8: "isMoving PY2 ?c chan =
        (if 0 < Targets self ! nat chan then (Inl PortNotOpenError, ?c) else (Inr False, ?c))"
      using isMoving_closed_valid [OF o t h c, of PY2] by (simp add: close_fields)
    have l1: "setRange ?c chan mn mx =
        (Inr (), ?c\<lparr>Mins := (Mins self)[nat chan := mn], Maxs := (Maxs self)[nat chan := mx]\<rparr>)"
      using setRange_in [OF t c, of mn mx] by (simp add: close_fields)
    have l2: "getMin ?c chan = (Inr (Mins self ! nat chan), ?c)"
      using c len by (simp add: getMin_def list_get_in close_fields)
    have l3: "getMax ?c chan = (Inr (Maxs self ! nat chan), ?c)"
      using c len by (simp add: getMax_def list_get_in close_fields)
    have l4: "close ?c = (Inr (), ?c)" by (rule close_result)
    have g1: "rotateHeadRight PY2 ?c = (Inl PortNotOpenError,
         ?c\<lparr>Mins := (Mins self)[3 := 4000], Maxs := (Maxs self)[3 := 8000]\<rparr>)"
      unfolding rotateHeadRight_def using g [of 3] by simp
    have g2: "rotateHeadLeft PY2 ?c = (Inl PortNotOpenError,
         ?c\<lparr>Mins := (Mins self)[3 := 4000], Maxs := (Maxs self)[3 := 8000]\<rparr>)"
      unfolding rotateHeadLeft_def using g [of 3] by simp
    have g3: "tiltHeadUp PY2 ?c = (Inl PortNotOpenError,
         ?c\<lparr>Mins := (Mins self)[4 := 4000], Maxs := (Maxs self)[4 := 8000]\<rparr>)"
      unfolding tiltHeadUp_def using g [of 4] by simp
    have g4: "tiltHeadDown PY2 ?c = (Inl PortNotOpenError,
         ?c\<lparr>Mins := (Mins self)[4 := 4000], Maxs := (Maxs self)[4 := 8000]\<rparr>)"
      unfolding tiltHeadDown_def using g [of 4] by simp
    have g5: "turnRight PY2 ?c = (Inl PortNotOpenError,
         ?c\<lparr>Mins := (Mins self)[2 := 5000], Maxs := (Maxs self)[2 := 7000]\<rparr>)"
      unfolding turnRight_def using g [of 2] by simp
    have g6: "turnLeft PY2 ?c = (Inl PortNotOpenError,
         ?c\<lparr>Mins := (Mins self)[2 := 5000], Maxs := (Maxs self)[2 := 7000]\<rparr>)"
      unfolding turnLeft_def using g [of 2] by simp
    have g7: "moveForward PY2 ?c = (Inl PortNotOpenError,
         ?c\<lparr>Mins := (Mins self)[1 := 5000], Maxs := (Maxs self)[1 := 7000]\<rparr>)"
      unfolding moveForward_def using g [of 1] by simp
    have g8: "moveForwarder PY2 ?c = (Inl PortNotOpenError,
         ?c\<lparr>Mins := (Mins self)[1 := 5000], Maxs := (Maxs self)[1 := 7000]\<rparr>)"
      unfolding moveForwarder_def using g [of 1] by simp
    have g9: "moveForwardest PY2 ?c = (Inl PortNotOpenError,
         ?c\<lparr>Mins := (Mins self)[1 := 5000], Maxs := (Maxs self)[1 := 7000]\<rparr>)"
      unfolding moveForwardest_def using g [of 1] by simp
    have g10: "moveBackward PY2 ?c = (Inl PortNotOpenError,
         ?c\<lparr>Mins := (Mins self)[1 := 5000], Maxs := (Maxs self)[1 := 7000]\<rparr>)"
      unfolding moveBackward_def using g [of 1] by simp
    have g11: "moveBackwarder PY2 ?c = (Inl PortNotOpenError,
         ?c\<lparr>Mins := (Mins self)[1 := 5000], Maxs := (Maxs self)[1 := 7000]\<rparr>)"
      unfolding moveBackwarder_def using g [of 1] by simp
    have g12: "moveBackwardest PY2 ?c = (Inl PortNotOpenError,
         ?c\<lparr>Mins := (Mins self)[1 := 5000], Maxs := (Maxs self)[1 := 7000]\<rparr>)"
      unfolding moveBackwardest_def using g [of 1] by simp
    have g13: "stopMotion PY2 ?c = (Inl PortNotOpenError,
         ?c\<lparr>Mins := (Mins self)[1 := 5000], Maxs := (Maxs self)[1 := 7000]\<rparr>)"
      unfolding stopMotion_def using g [of 1] by simp
    have "setSpeed PY2 ?c 3 1000 = (Inl PortNotOpenError, ?c)"
      using o h by (rule setSpeed_closed_valid) simp_all
    then have g14: "resetAll PY2 ?c = (Inl PortNotOpenError, ?c)"
      unfolding resetAll_def by simp
    show ?thesis
      by (intro conjI) (fact p1 p2 p3 p4 p5 p6 p7 p8 l1 l2 l3 l4
          g1 g2 g3 g4 g5 g6 g7 g8 g9 g10 g11 g12 g13 g14)+
  qed
  have any: "close self = (Inr (), ?c)" "written (usb ?c) = written (usb self)"
    by (rule close_result close_fields)+
  note r = setTarget_closed_raises [OF o, of PY2 a b] setSpeed_closed_raises [OF o, of PY2 a b]
      setAccel_closed_raises [OF o, of PY2 a b] getPosition_closed_raises [OF o, of PY2 a]
      getMovingState_closed_raises [OF o, of PY2] runScriptSub_closed_raises [OF o, of PY2 a]
      stopScript_closed_raises [OF o, of PY2]
  show ?thesis
    unfolding Let_def
    by (intro conjI) (fact any r | (rule impI, erule valid))+
qed

theorem closed_controller_raises_on_transmission_witness:
  "(let self = new_controller []; c = snd (close self)
    in tables_ok self \<and> list_all (\<lambda>x. 0 \<le> x \<and> x < 256) (PololuCmd self)
       \<and> \<not> 0 < Targets self ! nat 1
       \<and> setTarget False c 1 6000 = (Inl PortNotOpenError, c)
       \<and> getPosition False c 1 = (Inl PortNotOpenError, c)
       \<and> isMoving False c 1 = (Inr False, c)
       \<and> fst (setRange c 1 5000 7000) = Inr ()
       \<and> getMin c 1 = (Inr 0, c)
       \<and> moveForward False c = (Inl PortNotOpenError,
            c\<lparr>Mins := (replicate 24 0)[1 := 5000], Maxs := (replicate 24 0)[1 := 7000]\<rparr>)
       \<and> resetAll False c = (Inl PortNotOpenError, c)
       \<and> written (usb c) = [])
   \<and> (let self = snd (setTarget False (new_controller []) 1 6000); c = snd (close self)
      in tables_ok self \<and> list_all (\<lambda>x. 0 \<le> x \<and> x < 256) (PololuCmd self)
         \<and> 0 < Targets self ! nat 1
         \<and> isMoving False c 1 = (Inl PortNotOpenError, c)
         \<and> written (usb c) = [[0xaa, 0x0c, 0x04, 0x01, 0x70, 0x2e]])"
proof -
  let ?n = "new_controller []"
  let ?s = "snd (setTarget False (new_controller []) 1 6000)"
  have n: "tables_ok ?n" "list_all (\<lambda>x. 0 \<le> x \<and> x < 256) (PololuCmd ?n)"
    "Targets ?n ! nat 1 = 0" "Mins ?n = replicate 24 0" "Maxs ?n = replicate 24 0"
    "written (usb ?n) = []"
    by (simp_all add: new_controller_def fresh_port_def tables_ok_def)
  have s: "tables_ok ?s" "list_all (\<lambda>x. 0 \<le> x \<and> x < 256) (PololuCmd ?s)"
    "Targets ?s ! nat 1 = 6000" "written (usb ?s) = [[0xaa, 0x0c, 0x04, 0x01, 0x70, 0x2e]]"
    unfolding commanded_state
    by (simp_all add: new_controller_def fresh_port_def tables_ok_def)
  have a: "(let self = ?n; c = snd (close self)
    in tables_ok self \<and> list_all (\<lambda>x. 0 \<le> x \<and> x < 256) (PololuCmd self)
       \<and> \<not> 0 < Targets self ! nat 1
       \<and> setTarget False c 1 6000 = (Inl PortNotOpenError, c)
       \<and> getPosition False c 1 = (Inl PortNotOpenError, c)
       \<and> isMoving False c 1 = (Inr False, c)
       \<and> fst (setRange c 1 5000 7000) = Inr ()
       \<and> getMin c 1 = (Inr 0, c)
       \<and> moveForward False c = (Inl PortNotOpenError,
            c\<lparr>Mins := (replicate 24 0)[1 := 5000], Maxs := (replicate 24 0)[1 := 7000]\<rparr>)
       \<and> resetAll False c = (Inl PortNotOpenError, c)
       \<and> written (usb c) = [])"
    using closed_controller_raises_on_transmission
      [of ?n False _ _ 1 0 6000 5000 7000] n
    by (simp add: Let_def)
  have b: "(let self = ?s; c = snd (close self)
      in tables_ok self \<and> list_all (\<lambda>x. 0 \<le> x \<and> x < 256) (PololuCmd self)
         \<and> 0 < Targets self ! nat 1
         \<and> isMoving False c 1 = (Inl PortNotOpenError, c)
         \<and> written (usb c) = [[0xaa, 0x0c, 0x04, 0x01, 0x70, 0x2e]])"
    using closed_controller_raises_on_transmission
      [of ?s False _ _ 1 0 6000 5000 7000] s
    by (simp add: Let_def)
  from a b show ?thesis by (rule conjI)
qed

text \<open>
  Claim C9, as stated, fails at 128: the frame of \<^verbatim>\<open>setAccel(0, 128)\<close> ends with the
  byte 1.
\<close>

theorem setAccel_upper_byte_counterexample:
  "setAccel False (new_controller []) 0 128 =
     (Inr (), (new_controller [])\<lparr>usb := (fresh_port [])\<lparr>written :=
                                    [[0xaa, 0x0c, 0x09, 0x00, 0x00, 0x01]]\<rparr>\<rparr>)
   \<and> last (last (written (usb (snd (setAccel False (new_controller []) 0 128))))) \<noteq> 0"
proof -
  have "cmd4 False 0x09 0 (lsb_of 128) (msb_of 128) = Inr [0x09, 0, 0, 1]"
    by (simp add: cmd4_def py_chr_def lsb_of_mod msb_of_div)
  then have "setAccel False (new_controller []) 0 128 =
     (Inr (), (new_controller [])\<lparr>usb := (fresh_port [])\<lparr>written :=
                                    [[0xaa, 0x0c, 0x09, 0x00, 0x00, 0x01]]\<rparr>\<rparr>)"
    by (simp add: setAccel_def sendCmd_def latin1_def usb_write_def
        new_controller_def fresh_port_def Let_def)
  then show ?thesis by simp
qed

text \<open>
  Claim C9, amended. For an acceleration in 0..255, \<^verbatim>\<open>setAccel\<close> sends the frame
  \<open>[0xAA, device, 0x09, chan, accel & 0x7F, (accel >> 7) & 0x7F]\<close>, whose last byte is 0
  when the acceleration is at most 127 and 1 when it is 128 or more.
\<close>

theorem setAccel_upper_byte:
  assumes "link_up self" and "PololuCmd self = [0xaa, device]"
    and "0 \<le> device" and "device < 256" and "0 \<le> chan" and "chan < 24"
    and "0 \<le> accel" and "accel \<le> 255"
  shows "setAccel PY2 self chan accel =
           (Inr (), self\<lparr>usb := (usb self)\<lparr>written := written (usb self) @
              [[0xaa, device, 0x09, chan, accel AND 0x7f, drop_bit 7 accel AND 0x7f]]\<rparr>\<rparr>)
         \<and> drop_bit 7 accel AND 0x7f = (if accel \<le> 127 then 0 else 1)"
proof -
  have cm: "cmd4 PY2 0x09 chan (lsb_of accel) (msb_of accel) = Inr [0x09, chan, lsb_of accel, msb_of accel]"
    using assms(5,6) by (intro cmd4_bytes) auto
  have sn: "sendCmd PY2 self [0x09, chan, lsb_of accel, msb_of accel] =
    (Inr (), self\<lparr>usb := (usb self)\<lparr>written := written (usb self) @
        [[0xaa, device, 0x09, chan, lsb_of accel, msb_of accel]]\<rparr>\<rparr>)"
    using assms(1-6) by (subst sendCmd_up) auto
  have "accel div 128 = (if accel \<le> 127 then 0 else 1)"
    using assms(7,8) by auto
  then have m: "msb_of accel = (if accel \<le> 127 then 0 else 1)"
    by (simp add: msb_of_div)
  have "setAccel PY2 self chan accel =
    (Inr (), self\<lparr>usb := (usb self)\<lparr>written := written (usb self) @
        [[0xaa, device, 0x09, chan, lsb_of accel, msb_of accel]]\<rparr>\<rparr>)"
    by (simp add: setAccel_def cm sn Let_def del: data_byte)
  then show ?thesis using m unfolding lsb_of_def msb_of_def by simp
qed

theorem setAccel_upper_byte_witness:
  "link_up (new_controller []) \<and> PololuCmd (new_controller []) = [0xaa, 0x0c]
   \<and> (0::int) \<le> 100 \<and> (100::int) \<le> 255 \<and> (100::int) \<le> 127
   \<and> setAccel False (new_controller []) 2 100 =
       (Inr (), (new_controller [])\<lparr>usb := (fresh_port [])\<lparr>written :=
                                      [[0xaa, 0x0c, 0x09, 0x02, 0x64, 0x00]]\<rparr>\<rparr>)"
proof -
  have w: "usb (new_controller []) = fresh_port []" "written (fresh_port []) = []"
    by (simp_all add: new_controller_def fresh_port_def)
  have "drop_bit 7 (100::int) AND 0x7f = 0 \<Longrightarrow> (100::int) AND 0x7f = 100" by simp
  then show ?thesis
    using setAccel_upper_byte [OF new_controller_ok(2) new_controller_ok(3), of 2 100 False] w
    by simp
qed

text \<open>
  Claim C10. For response bytes \<open>lsb\<close> and \<open>msb\<close>, each in 0..255, \<^verbatim>\<open>getPosition\<close>
  sends the query frame of opcode 0x10, takes the two bytes and returns
  \<^verbatim>\<open>(msb << 8) + lsb\<close>, a value in 0..65535, which exceeds 16383 whenever \<open>msb\<close> is at
  least 64.
\<close>

theorem getPosition_sixteen_bits:
  assumes "link_up self" and "PololuCmd self = [0xaa, device]"
    and "0 \<le> device" and "device < 256" and "0 \<le> chan" and "chan < 24"
    and "pending (usb self) = lsb # msb # rest"
    and "0 \<le> lsb" and "lsb \<le> 255" and "0 \<le> msb" and "msb \<le> 255"
  shows "fst (getPosition PY2 self chan) = Inr (push_bit 8 msb + lsb)
         \<and> 0 \<le> push_bit 8 msb + lsb \<and> push_bit 8 msb + lsb \<le> 65535
         \<and> (64 \<le> msb \<longrightarrow> 16383 < push_bit 8 msb + lsb)
         \<and> written (usb (snd (getPosition PY2 self chan))) =
             written (usb self) @ [[0xaa, device, 0x10, chan]]
         \<and> pending (usb (snd (getPosition PY2 self chan))) = rest"
proof -
  have h: "list_all (\<lambda>c. 0 \<le> c \<and> c < 256) (PololuCmd self)"
    using assms(2,3,4) by simp
  have "chan < 256" using assms(6) by simp
  from getPosition_reads [OF assms(1) h assms(5) this assms(7), of PY2]
  show ?thesis
    using assms(2,8,9,10,11) by (simp add: combine_def push_bit_eq_mult)
qed

theorem getPosition_sixteen_bits_witness:
  "link_up (new_controller [0x00, 0x40]) \<and> PololuCmd (new_controller [0x00, 0x40]) = [0xaa, 0x0c]
   \<and> pending (usb (new_controller [0x00, 0x40])) = [0x00, 0x40] \<and> (64::int) \<le> 0x40
   \<and> fst (getPosition False (new_controller [0x00, 0x40]) 3) = Inr 16384
   \<and> (16383::int) < 16384"
proof -
  let ?n = "new_controller [0x00, 0x40]"
  have p: "pending (usb ?n) = [0x00, 0x40]" by (simp add: new_controller_def fresh_port_def)
  show ?thesis
    using getPosition_sixteen_bits [OF new_controller_ok(2) new_controller_ok(3) _ _ _ _ p,
      of 3 False] p
    by (simp add: push_bit_eq_mult)
qed

end
